theory Spec2Isabelle
  imports Main
begin

section \<open>Python values\<close>

text \<open>
  The pipeline passes untyped dictionaries around. A value is one of the Python types
  that occur in them: \<open>None\<close>, \<open>bool\<close>, \<open>int\<close>, \<open>str\<close>, \<open>list\<close> and \<open>dict\<close>
  with string keys (\<open>float\<close> and other key types are not modelled). A \<open>str\<close> is the
  list of the bytes of its UTF-8 encoding, so the Chinese labels of the source are byte
  lists and every ASCII character is one \<open>char\<close>. The character classes of Python (\<open>\d\<close>, \<open>isdigit\<close>,
  \<open>strip\<close>, \<open>upper\<close>, \<open>lower\<close>) are modelled on ASCII: a byte above 0x7F is
  neither a digit nor white space and has no case.
\<close>

datatype pyval =
    PNone
  | PBool bool
  | PInt int
  | PStr string
  | PList "pyval list"
  | PDict "(string \<times> pyval) list"

datatype error =
    ValueError
  | TypeError
  | AttributeError
  | IndexError

type_synonym pydict = "(string \<times> pyval) list"

text \<open>\<open>bool(v)\<close>, the test of \<open>if v:\<close>.\<close>

fun truthy :: "pyval \<Rightarrow> bool" where
  "truthy PNone = False"
| "truthy (PBool b) = b"
| "truthy (PInt n) = (n \<noteq> 0)"
| "truthy (PStr s) = (s \<noteq> [])"
| "truthy (PList xs) = (xs \<noteq> [])"
| "truthy (PDict kvs) = (kvs \<noteq> [])"

text \<open>\<open>d.get(k)\<close> and \<open>d.get(k, default)\<close> on a dictionary with string keys.\<close>

definition get_or :: "pydict \<Rightarrow> string \<Rightarrow> pyval \<Rightarrow> pyval" where
  "get_or d k dflt = (case map_of d k of None \<Rightarrow> dflt | Some v \<Rightarrow> v)"

definition get :: "pydict \<Rightarrow> string \<Rightarrow> pyval" where
  "get d k = get_or d k PNone"

text \<open>\<open>d[k] = v\<close> and \<open>d.update({...})\<close>: an existing key keeps its place.\<close>

fun setitem :: "pydict \<Rightarrow> string \<Rightarrow> pyval \<Rightarrow> pydict" where
  "setitem [] k v = [(k, v)]"
| "setitem ((k', v') # d) k v = (if k' = k then (k, v) # d else (k', v') # setitem d k v)"

fun update_dict :: "pydict \<Rightarrow> pydict \<Rightarrow> pydict" where
  "update_dict d [] = d"
| "update_dict d ((k, v) # kvs) = update_dict (setitem d k v) kvs"

subsection \<open>Strings\<close>

definition is_digit :: "char \<Rightarrow> bool" where
  "is_digit c = (48 \<le> (of_char c :: nat) \<and> (of_char c :: nat) \<le> 57)"

definition digit_val :: "char \<Rightarrow> nat" where
  "digit_val c = of_char c - 48"

definition digit_char :: "nat \<Rightarrow> char" where
  "digit_char n = char_of (48 + n)"

text \<open>White space of \<open>str.strip()\<close>: TAB, LF, VT, FF, CR, FS, GS, RS, US and the space.\<close>

definition is_space :: "char \<Rightarrow> bool" where
  "is_space c = (let n = (of_char c :: nat) in (9 \<le> n \<and> n \<le> 13) \<or> (28 \<le> n \<and> n \<le> 32))"

definition strip :: "string \<Rightarrow> string" where
  "strip s = rev (dropWhile is_space (rev (dropWhile is_space s)))"

definition lower_char :: "char \<Rightarrow> char" where
  "lower_char c = (let n = (of_char c :: nat) in if 65 \<le> n \<and> n \<le> 90 then char_of (n + 32) else c)"

definition upper_char :: "char \<Rightarrow> char" where
  "upper_char c = (let n = (of_char c :: nat) in if 97 \<le> n \<and> n \<le> 122 then char_of (n - 32) else c)"

definition lower :: "string \<Rightarrow> string" where
  "lower s = map lower_char s"

definition upper :: "string \<Rightarrow> string" where
  "upper s = map upper_char s"

text \<open>\<open>sub in s\<close> on strings.\<close>

fun contains :: "string \<Rightarrow> string \<Rightarrow> bool" where
  "contains sub [] = (sub = [])"
| "contains sub (c # cs) = (take (length sub) (c # cs) = sub \<or> contains sub cs)"

text \<open>\<open>sep.join(xs)\<close>.\<close>

fun join :: "string \<Rightarrow> string list \<Rightarrow> string" where
  "join sep [] = []"
| "join sep [x] = x"
| "join sep (x # y # ys) = x @ sep @ join sep (y # ys)"

text \<open>Decimal numerals: \<open>str(n)\<close> of an \<open>int\<close> and \<open>int(s)\<close> of a run of digits.\<close>

fun dec_nat :: "nat \<Rightarrow> string" where
  "dec_nat n = (if n < 10 then [digit_char n] else dec_nat (n div 10) @ [digit_char (n mod 10)])"

declare dec_nat.simps [simp del]

definition dec_int :: "int \<Rightarrow> string" where
  "dec_int n = (if n < 0 then CHR ''-'' # dec_nat (nat (- n)) else dec_nat (nat n))"

definition int_of_digits :: "string \<Rightarrow> int" where
  "int_of_digits s = int (foldl (\<lambda>a c. 10 * a + digit_val c) 0 s)"

text \<open>The format \<open>{n:02d}\<close>: the sign and the digits, filled with zeros to two characters.\<close>

definition fmt_02d :: "int \<Rightarrow> string" where
  "fmt_02d n = (if 0 \<le> n \<and> n < 10 then CHR ''0'' # dec_int n else dec_int n)"

text \<open>
  \<open>repr\<close> of a string: single quotes unless the string has a single and no double
  quote; the quote and the backslash are escaped, as are the control characters.
\<close>

definition hex_digit :: "nat \<Rightarrow> char" where
  "hex_digit n = (if n < 10 then char_of (48 + n) else char_of (87 + n))"

definition repr_char :: "char \<Rightarrow> char \<Rightarrow> string" where
  "repr_char q c =
     (let n = (of_char c :: nat) in
      if c = q \<or> c = CHR 0x5C then [CHR 0x5C, c]
      else if n = 9 then [CHR 0x5C, CHR ''t'']
      else if n = 10 then [CHR 0x5C, CHR ''n'']
      else if n = 13 then [CHR 0x5C, CHR ''r'']
      else if n < 32 \<or> n = 127 then [CHR 0x5C, CHR ''x'', hex_digit (n div 16), hex_digit (n mod 16)]
      else [c])"

definition repr_str :: "string \<Rightarrow> string" where
  "repr_str s =
     (let q = (if CHR 0x27 \<in> set s \<and> CHR 0x22 \<notin> set s then CHR 0x22 else CHR 0x27)
      in q # concat (map (repr_char q) s) @ [q])"

fun py_repr :: "pyval \<Rightarrow> string" where
  "py_repr PNone = ''None''"
| "py_repr (PBool b) = (if b then ''True'' else ''False'')"
| "py_repr (PInt n) = dec_int n"
| "py_repr (PStr s) = repr_str s"
| "py_repr (PList xs) = ''['' @ join '', '' (map py_repr xs) @ '']''"
| "py_repr (PDict kvs) =
     ''{'' @ join '', '' (map (\<lambda>kv. repr_str (fst kv) @ '': '' @ py_repr (snd kv)) kvs) @ ''}''"

text \<open>\<open>str(v)\<close>.\<close>

fun py_str :: "pyval \<Rightarrow> string" where
  "py_str (PStr s) = s"
| "py_str v = py_repr v"

text \<open>\<open>re.search(r'\d+', s)\<close>: the first maximal run of digits, if any.\<close>

definition first_digit_run :: "string \<Rightarrow> string option" where
  "first_digit_run s =
     (case dropWhile (\<lambda>c. \<not> is_digit c) s of
        [] \<Rightarrow> None
      | r \<Rightarrow> Some (takeWhile is_digit r))"

section \<open>The merge buffer\<close>

text \<open>The labels of the source, as UTF-8 bytes.\<close>

definition label_unknown :: string where
  "label_unknown = [CHR 0xE6, CHR 0x9C, CHR 0xAA, CHR 0xE7, CHR 0x9F, CHR 0xA5]"

definition label_batch_library_update :: string where
  "label_batch_library_update =
     [CHR 0xE5, CHR 0xAA, CHR 0x92, CHR 0xE4, CHR 0xBD, CHR 0x93, CHR 0xE5, CHR 0xBA, CHR 0x93,
      CHR 0xE6, CHR 0x89, CHR 0xB9, CHR 0xE9, CHR 0x87, CHR 0x8F, CHR 0xE6, CHR 0x9B, CHR 0xB4,
      CHR 0xE6, CHR 0x96, CHR 0xB0]"

definition label_merged_download :: string where
  "label_merged_download =
     [CHR 0xE4, CHR 0xB8, CHR 0x8B, CHR 0xE8, CHR 0xBD, CHR 0xBD, CHR 0xE5, CHR 0x90, CHR 0x88,
      CHR 0xE5, CHR 0xB9, CHR 0xB6, CHR 0xE6, CHR 0x8E, CHR 0xA8, CHR 0xE9, CHR 0x80, CHR 0x81]"

subsection \<open>\<open>PushBuffer._extract_episode_number\<close> and \<open>_extract_season_number\<close>\<close>

definition extract_episode_number :: "pyval \<Rightarrow> int" where
  "extract_episode_number episode_str =
     (if \<not> truthy episode_str then 0
      else case first_digit_run (py_str episode_str) of
             Some m \<Rightarrow> int_of_digits m
           | None \<Rightarrow> 0)"

definition extract_season_number :: "pyval \<Rightarrow> string" where
  "extract_season_number season_str =
     (if \<not> truthy season_str then ''1''
      else if (case season_str of PStr s \<Rightarrow> lower (strip s) = ''none'' | _ \<Rightarrow> False) then ''1''
      else case first_digit_run (py_str season_str) of
             Some m \<Rightarrow> m
           | None \<Rightarrow> ''1'')"

subsection \<open>\<open>PushBuffer._format_episode_range\<close>\<close>

definition range_label :: "int \<Rightarrow> int \<Rightarrow> string" where
  "range_label start end =
     (if start = end then ''E'' @ fmt_02d start
      else ''E'' @ fmt_02d start @ ''-E'' @ fmt_02d end)"

text \<open>
  The \<open>for\<close> loop over \<open>episode_numbers[1:]\<close> with its variables \<open>ranges\<close>, \<open>start\<close>
  and \<open>end\<close>; the last equation is the code after the loop.
\<close>

fun range_loop :: "string list \<Rightarrow> int \<Rightarrow> int \<Rightarrow> int list \<Rightarrow> string list" where
  "range_loop ranges start end [] = ranges @ [range_label start end]"
| "range_loop ranges start end (x # xs) =
     (if x = end + 1 then range_loop ranges start x xs
      else range_loop (ranges @ [range_label start end]) x x xs)"

definition format_episode_range :: "int list \<Rightarrow> string" where
  "format_episode_range episode_numbers =
     (case episode_numbers of
        [] \<Rightarrow> label_unknown
      | [n] \<Rightarrow> ''E'' @ fmt_02d n
      | n # rest \<Rightarrow> join '','' (range_loop [] n n rest))"

subsection \<open>\<open>PushBuffer._merge_episodes\<close>\<close>

text \<open>
  The first loop of \<open>_merge_episodes\<close>: the episode numbers that are not zero, in the
  order of the events, and the variable \<open>season\<close>, which starts as \<open>None\<close>.
\<close>

fun collect_numbers :: "pydict list \<Rightarrow> int list \<Rightarrow> string option \<Rightarrow> int list \<times> string option" where
  "collect_numbers [] episode_numbers season = (episode_numbers, season)"
| "collect_numbers (ep # eps) episode_numbers season =
     (let episode_num = extract_episode_number (get_or ep ''episode'' (PStr ''''));
          episode_numbers' = (if episode_num \<noteq> 0 then episode_numbers @ [episode_num]
                              else episode_numbers);
          season' = (if season = None
                     then Some (extract_season_number (get_or ep ''season'' (PStr '''')))
                     else season)
      in collect_numbers eps episode_numbers' season')"

text \<open>\<open>season or '1'\<close>.\<close>

definition season_or_1 :: "string option \<Rightarrow> string" where
  "season_or_1 season = (case season of None \<Rightarrow> ''1'' | Some s \<Rightarrow> if s = [] then ''1'' else s)"

text \<open>
  The action of the merged event. \<open>source.upper()\<close> raises \<open>AttributeError\<close> when the
  source field holds anything but a string.
\<close>

definition merged_action :: "pydict \<Rightarrow> error + pyval" where
  "merged_action last_ep =
     (let action = get last_ep ''action'';
          source = get_or last_ep ''source'' (PStr '''')
      in case source of
           PStr s \<Rightarrow>
             if contains ''EMBY'' (upper s) then Inr (PStr label_batch_library_update)
             else if \<not> truthy action then Inr (PStr label_merged_download)
             else Inr action
         | _ \<Rightarrow> Inl AttributeError)"

text \<open>
  \<open>episodes[0]\<close> raises \<open>IndexError\<close> on the empty list, after the loop and the range
  formatting, which have no effect of their own.
\<close>

definition merge_episodes :: "pydict list \<Rightarrow> pyval \<Rightarrow> error + pydict" where
  "merge_episodes episodes title =
     (let (collected, season) = collect_numbers episodes [] None;
          episode_numbers = sorted_list_of_set (set collected);
          episode_range = format_episode_range episode_numbers
      in case episodes of
           [] \<Rightarrow> Inl IndexError
         | first # _ \<Rightarrow>
             (let merged = first;
                  first_image = get merged ''image''
              in case merged_action (last episodes) of
                   Inl e \<Rightarrow> Inl e
                 | Inr action \<Rightarrow>
                     (let merged = update_dict merged
                            [(''title'', title),
                             (''season'', PStr (season_or_1 season)),
                             (''episode_count'', PInt (int (length episode_numbers))),
                             (''episode_range'', PStr episode_range),
                             (''episode_list'', PList (map PInt episode_numbers)),
                             (''is_merged'', PBool True),
                             (''action'', action),
                             (''timestamp'', get (last episodes) ''timestamp'')]
                      in Inr (if truthy first_image then setitem merged ''image'' first_image
                              else merged))))"

section \<open>The range formatter against its specification\<close>

text \<open>
  The runs of a list as the specification describes them: an interval \<open>(a, b)\<close> stands
  for the numbers from \<open>a\<close> to \<open>b\<close>. The list is read from its end, so that the
  definition shares nothing with the loop of the source.
\<close>

fun runs :: "int list \<Rightarrow> (int \<times> int) list" where
  "runs [] = []"
| "runs (x # xs) =
     (case runs xs of
        [] \<Rightarrow> [(x, x)]
      | (a, b) # rs \<Rightarrow> if a = x + 1 then (x, b) # rs else (x, x) # (a, b) # rs)"

definition expand_runs :: "(int \<times> int) list \<Rightarrow> int list" where
  "expand_runs rs = concat (map (\<lambda>(a, b). [a..b]) rs)"

text \<open>
  Every interval is not empty, and none can be extended: the next one does not start at
  the successor of its end.
\<close>

fun maximal_runs :: "(int \<times> int) list \<Rightarrow> bool" where
  "maximal_runs [] = True"
| "maximal_runs [(a, b)] = (a \<le> b)"
| "maximal_runs ((a, b) # (c, d) # rs) = (a \<le> b \<and> c \<noteq> b + 1 \<and> maximal_runs ((c, d) # rs))"

text \<open>A run of two numbers or more is \<open>Eaa-Ebb\<close>, a number alone is \<open>Enn\<close>.\<close>

definition run_label :: "int \<times> int \<Rightarrow> string" where
  "run_label r = (if 2 \<le> snd r - fst r + 1 then ''E'' @ fmt_02d (fst r) @ ''-E'' @ fmt_02d (snd r)
                  else ''E'' @ fmt_02d (fst r))"

section \<open>The merged event against its specification\<close>

text \<open>The numbers that \<open>_merge_episodes\<close> reads off one buffered event.\<close>

definition episode_of :: "pydict \<Rightarrow> int" where
  "episode_of ep = extract_episode_number (get_or ep ''episode'' (PStr ''''))"

definition season_of :: "pydict \<Rightarrow> string" where
  "season_of ep = extract_season_number (get_or ep ''season'' (PStr ''''))"


text \<open>
  The action of the merged event in the words of the specification: the action of the
  last event when it is present, and only otherwise one of the two fixed labels.
\<close>

definition spec_merged_action :: "pydict \<Rightarrow> pyval" where
  "spec_merged_action last_ep =
     (if truthy (get last_ep ''action'') then get last_ep ''action''
      else if contains ''EMBY'' (upper (py_str (get_or last_ep ''source'' (PStr ''''))))
           then PStr label_batch_library_update
      else PStr label_merged_download)"

text \<open>The keys that \<open>merged.update\<close> writes.\<close>

definition overwritten_keys :: "string set" where
  "overwritten_keys =
     {''title'', ''season'', ''episode_count'', ''episode_range'', ''episode_list'',
      ''is_merged'', ''action'', ''timestamp''}"

text \<open>The source field of an event holds a string, as every event of the normalizer does.\<close>

definition source_is_str :: "pydict \<Rightarrow> bool" where
  "source_is_str ep = (case get_or ep ''source'' (PStr '''') of PStr _ \<Rightarrow> True | _ \<Rightarrow> False)"

section \<open>The event normalizer\<close>

text \<open>
  Modelled from the spec: the enumeration \<open>TableName\<close> of the module \<open>mapping\<close>, the
  closed set of source tags. The normalizer tests its source against the members
  \<open>ANIRSS\<close> (feed origin) and \<open>EMBY\<close> (library origin); \<open>ANIME\<close> is the table of
  the enrichment records. The value of a member is taken to be its name, as the
  configuration model documents for the keys of the push targets.
\<close>

datatype table_name = ANIRSS | EMBY | ANIME

definition table_value :: "table_name \<Rightarrow> string" where
  "table_value t = (case t of ANIRSS \<Rightarrow> ''ANIRSS'' | EMBY \<Rightarrow> ''EMBY'' | ANIME \<Rightarrow> ''ANIME'')"

text \<open>
  The library functions and the configuration that the normalizer calls:
  \<^item> \<open>json.loads\<close> by its contract, the decoded value or \<open>None\<close> for
    \<open>JSONDecodeError\<close>;
  \<^item> \<open>datetime.fromisoformat(s).strftime('%m-%d %H:%M:%S')\<close> on the strings of seven
    characters and more, \<open>None\<close> for \<open>ValueError\<close>: the grammar accepted there
    depends on the version of the interpreter, whereas every version rejects a shorter
    string;
  \<^item> \<open>generate_emby_image_url(APPCONFIG.emby_host, series_id, tag)\<close> of the module
    \<open>utils\<close>, which may raise.
\<close>

record picker_env =
  json_loads :: "string \<Rightarrow> pyval option"
  fromisoformat_strftime :: "string \<Rightarrow> string option"
  generate_emby_image_url :: "pyval \<Rightarrow> pyval \<Rightarrow> error + pyval"

text \<open>\<open>a or b\<close>.\<close>

definition py_or :: "pyval \<Rightarrow> pyval \<Rightarrow> pyval" where
  "py_or a b = (if truthy a then a else b)"

text \<open>
  \<open>int(v)\<close>: an \<open>int\<close> or a \<open>bool\<close> as it is; a string after \<open>strip\<close>, with an
  optional sign and digits that single underscores may separate, and \<open>ValueError\<close>
  otherwise; \<open>TypeError\<close> for \<open>None\<close>, a list and a dictionary. The limit that
  newer interpreters put on the number of digits is not modelled.
\<close>

fun valid_int_body :: "string \<Rightarrow> bool" where
  "valid_int_body [] = False"
| "valid_int_body [c] = is_digit c"
| "valid_int_body (c # d # cs) =
     (is_digit c \<and> (if d = CHR ''_'' then valid_int_body cs else valid_int_body (d # cs)))"

definition py_int :: "pyval \<Rightarrow> error + int" where
  "py_int v =
     (case v of
        PInt n \<Rightarrow> Inr n
      | PBool b \<Rightarrow> Inr (if b then 1 else 0)
      | PStr s \<Rightarrow>
          (let t = strip s;
               negative = (t \<noteq> [] \<and> hd t = CHR ''-'');
               body = (if t \<noteq> [] \<and> (hd t = CHR ''-'' \<or> hd t = CHR ''+'') then tl t else t)
           in if valid_int_body body
              then Inr ((if negative then - 1 else 1)
                        * int_of_digits (filter (\<lambda>c. c \<noteq> CHR ''_'') body))
              else Inl ValueError)
      | _ \<Rightarrow> Inl TypeError)"

text \<open>\<open>s.isdigit()\<close>.\<close>

definition isdigit :: "string \<Rightarrow> bool" where
  "isdigit s = (s \<noteq> [] \<and> list_all is_digit s)"

definition is_str :: "pyval \<Rightarrow> bool" where
  "is_str v = (case v of PStr _ \<Rightarrow> True | _ \<Rightarrow> False)"

definition source_is_feed_or_library :: "table_name \<Rightarrow> bool" where
  "source_is_feed_or_library source = (source = ANIRSS \<or> source = EMBY)"

subsection \<open>The labels of the normalizer, as UTF-8 bytes\<close>

definition label_media_update_done :: string where
  "label_media_update_done =
     [CHR 0xE5, CHR 0xAA, CHR 0x92, CHR 0xE4, CHR 0xBD, CHR 0x93, CHR 0xE6, CHR 0x9B, CHR 0xB4,
      CHR 0xE6, CHR 0x96, CHR 0xB0, CHR 0xE5, CHR 0xB7, CHR 0xB2, CHR 0xE5, CHR 0xAE, CHR 0x8C,
      CHR 0xE6, CHR 0x88, CHR 0x90]"

definition episode_label :: "int \<Rightarrow> int \<Rightarrow> string" where
  "episode_label season episode =
     [CHR 0xE7, CHR 0xAC, CHR 0xAC, CHR 0x20] @ dec_int season @
     [CHR 0x20, CHR 0xE5, CHR 0xAD, CHR 0xA3, CHR 0x20, CHR 0x7C, CHR 0x20,
      CHR 0xE7, CHR 0xAC, CHR 0xAC, CHR 0x20] @ dec_int episode @
     [CHR 0x20, CHR 0xE9, CHR 0x9B, CHR 0x86]"

definition merged_episode_label :: "string \<Rightarrow> string" where
  "merged_episode_label n =
     [CHR 0xE5, CHR 0x90, CHR 0x88, CHR 0xE8, CHR 0xAE, CHR 0xA1, CHR 0x20] @ n @
     [CHR 0x20, CHR 0xE9, CHR 0x9B, CHR 0x86, CHR 0xE6, CHR 0x9B, CHR 0xB4, CHR 0xE6, CHR 0x96,
      CHR 0xB0]"

subsection \<open>The field extractors of \<open>DataPicker\<close>\<close>

definition pick_id :: "table_name \<Rightarrow> pydict \<Rightarrow> error + pyval" where
  "pick_id source source_data =
     (if source_is_feed_or_library source \<and> truthy (get source_data ''id'')
      then (case py_int (get source_data ''id'') of Inl e \<Rightarrow> Inl e | Inr n \<Rightarrow> Inr (PInt n))
      else Inr PNone)"

definition pick_title :: "table_name \<Rightarrow> pydict \<Rightarrow> pydict \<Rightarrow> pyval" where
  "pick_title source source_data anime_data =
     (if source_is_feed_or_library source \<and> truthy (get source_data ''title'')
      then PStr (py_str (get source_data ''title''))
      else if anime_data \<noteq> []
      then py_or (get anime_data ''emby_title'') (get anime_data ''tmdb_title'')
      else PNone)"

text \<open>
  The end of \<open>_pick_episode\<close>, shared by the feed and by the library type \<open>Episode\<close>:
  the \<open>try\<close> around the two calls of \<open>int\<close>.
\<close>

definition season_episode_label :: "pyval \<Rightarrow> pyval \<Rightarrow> pyval" where
  "season_episode_label season episode =
     (if season \<noteq> PNone \<and> episode \<noteq> PNone
      then (case py_int season of
              Inl _ \<Rightarrow> PNone
            | Inr s \<Rightarrow> (case py_int episode of
                          Inl _ \<Rightarrow> PNone
                        | Inr e \<Rightarrow> PStr (episode_label s e)))
      else PNone)"

definition pick_episode :: "table_name \<Rightarrow> pydict \<Rightarrow> pyval" where
  "pick_episode source source_data =
     (let season = get source_data ''season'';
          episode = get source_data ''episode''
      in case source of
           ANIRSS \<Rightarrow> season_episode_label season episode
         | EMBY \<Rightarrow>
             (let type = get source_data ''type''
              in if \<not> truthy type then PNone
                 else if type = PStr ''Movie'' then PNone
                 else if type = PStr ''Series''
                 then (let merged_episode = get source_data ''merged_episode''
                       in if truthy merged_episode
                          then PStr (merged_episode_label (py_str merged_episode))
                          else PNone)
                 else if type = PStr ''Episode''
                 then (if \<not> (season \<noteq> PNone \<and> episode \<noteq> PNone \<and>
                             isdigit (py_str season) \<and> isdigit (py_str episode))
                       then PNone
                       else season_episode_label season episode)
                 else PNone)
         | ANIME \<Rightarrow> PNone)"

definition pick_episode_title :: "table_name \<Rightarrow> pydict \<Rightarrow> pyval" where
  "pick_episode_title source source_data =
     (case source of
        ANIRSS \<Rightarrow> py_or (py_or (get source_data ''tmdb_episode_title'')
                               (get source_data ''bangumi_episode_title''))
                        (get source_data ''bangumi_jpepisode_title'')
      | EMBY \<Rightarrow> get source_data ''episode_title''
      | ANIME \<Rightarrow> PNone)"

text \<open>
  \<open>_pick_timestamp\<close> has no handler around \<open>datetime.fromisoformat\<close>, which raises
  \<open>TypeError\<close> on anything but a string and \<open>ValueError\<close> on a string that is no
  ISO date.
\<close>

definition pick_timestamp :: "picker_env \<Rightarrow> table_name \<Rightarrow> pydict \<Rightarrow> error + pyval" where
  "pick_timestamp env source source_data =
     (if source_is_feed_or_library source
      then (let timestamp = get source_data ''timestamp''
            in if truthy timestamp
               then (case timestamp of
                       PStr s \<Rightarrow>
                         (if length s < 7 then Inl ValueError
                          else case fromisoformat_strftime env s of
                                 None \<Rightarrow> Inl ValueError
                               | Some formatted \<Rightarrow> Inr (PStr formatted))
                     | _ \<Rightarrow> Inl TypeError)
               else Inr PNone)
      else Inr PNone)"

definition pick_source :: "table_name \<Rightarrow> pyval" where
  "pick_source source = PStr (table_value source)"

definition pick_action :: "table_name \<Rightarrow> pydict \<Rightarrow> pyval" where
  "pick_action source source_data =
     (case source of
        ANIRSS \<Rightarrow> get source_data ''action''
      | EMBY \<Rightarrow> PStr label_media_update_done
      | ANIME \<Rightarrow> PNone)"

definition pick_score :: "table_name \<Rightarrow> pydict \<Rightarrow> pydict \<Rightarrow> pyval" where
  "pick_score source source_data anime_data =
     (if source_is_feed_or_library source \<and> truthy (get source_data ''score'')
      then get source_data ''score''
      else if truthy (get anime_data ''score'') then get anime_data ''score''
      else PNone)"

definition pick_genres :: "table_name \<Rightarrow> pydict \<Rightarrow> pydict \<Rightarrow> pyval" where
  "pick_genres source source_data anime_data =
     (if source = EMBY \<and> truthy (get source_data ''genres'')
      then get source_data ''genres''
      else if truthy (get anime_data ''genres'') then get anime_data ''genres''
      else PNone)"

definition pick_tmdb_id :: "table_name \<Rightarrow> pydict \<Rightarrow> pydict \<Rightarrow> pyval" where
  "pick_tmdb_id source source_data anime_data =
     (if source_is_feed_or_library source \<and> truthy (get source_data ''tmdb_id'')
      then get source_data ''tmdb_id''
      else if truthy (get anime_data ''tmdb_id'') then get anime_data ''tmdb_id''
      else PNone)"

definition pick_media_type :: "table_name \<Rightarrow> pydict \<Rightarrow> pyval" where
  "pick_media_type source source_data =
     (case source of
        EMBY \<Rightarrow> get source_data ''type''
      | ANIRSS \<Rightarrow>
          (let season = get source_data ''season'';
               episode = get source_data ''episode''
           in if truthy season \<and> truthy episode then PStr ''Episode''
              else if truthy season then PStr ''Series''
              else PNone)
      | ANIME \<Rightarrow> PNone)"

text \<open>
  The season of both branches of \<open>_pick_season\<close>: \<open>str(int(season))\<close>, and
  \<open>str(season)\<close> or \<open>None\<close> when \<open>int\<close> raises.
\<close>

definition season_text :: "pyval \<Rightarrow> pyval" where
  "season_text season =
     (if season \<noteq> PNone
      then (case py_int season of
              Inr n \<Rightarrow> PStr (dec_int n)
            | Inl _ \<Rightarrow> if truthy season then PStr (py_str season) else PNone)
      else PNone)"

definition pick_season :: "table_name \<Rightarrow> pydict \<Rightarrow> pyval" where
  "pick_season source source_data =
     (case source of
        EMBY \<Rightarrow> (if get source_data ''type'' = PStr ''Movie'' then PNone
                 else season_text (get source_data ''season''))
      | ANIRSS \<Rightarrow> season_text (get source_data ''season'')
      | ANIME \<Rightarrow> PNone)"

definition pick_subgroup :: "table_name \<Rightarrow> pydict \<Rightarrow> pyval" where
  "pick_subgroup source source_data = (if source = ANIRSS then get source_data ''subgroup'' else PNone)"

definition pick_progress :: "table_name \<Rightarrow> pydict \<Rightarrow> pyval" where
  "pick_progress source source_data = (if source = ANIRSS then get source_data ''progress'' else PNone)"

text \<open>\<open>premiere.split('T')[0]\<close> is the text before the first \<open>T\<close>.\<close>

definition premiere_of :: "pyval \<Rightarrow> pyval option" where
  "premiere_of premiere =
     (case premiere of
        PStr s \<Rightarrow> if s \<noteq> []
                  then Some (PStr (if CHR ''T'' \<in> set s then takeWhile (\<lambda>c. c \<noteq> CHR ''T'') s else s))
                  else None
      | _ \<Rightarrow> None)"

definition pick_premiere :: "pydict \<Rightarrow> pydict \<Rightarrow> pyval" where
  "pick_premiere source_data anime_data =
     (case premiere_of (get source_data ''premiere'') of
        Some p \<Rightarrow> p
      | None \<Rightarrow>
          (case premiere_of (get source_data ''PremiereDate'') of
             Some p \<Rightarrow> p
           | None \<Rightarrow>
               if anime_data \<noteq> [] \<and> truthy (get anime_data ''premiere'')
               then PStr (py_str (get anime_data ''premiere''))
               else PNone))"

text \<open>
  The scan of \<open>external_urls\<close> for an entry of the given name. \<open>.lower()\<close> raises
  \<open>AttributeError\<close> when the name of an entry is not a string.
\<close>

fun scan_external_urls :: "string \<Rightarrow> pyval list \<Rightarrow> error + pyval option" where
  "scan_external_urls name [] = Inr None"
| "scan_external_urls name (url_obj # rest) =
     (case url_obj of
        PDict d \<Rightarrow>
          (case py_or (get d ''Name'') (get_or d ''name'' (PStr '''')) of
             PStr n \<Rightarrow>
               if lower n = name
               then (let url = py_or (get d ''Url'') (get d ''url'')
                     in if truthy url then Inr (Some url) else scan_external_urls name rest)
               else scan_external_urls name rest
           | _ \<Rightarrow> Inl AttributeError)
      | _ \<Rightarrow> scan_external_urls name rest)"

definition library_external_url :: "string \<Rightarrow> table_name \<Rightarrow> pydict \<Rightarrow> error + pyval option" where
  "library_external_url name source source_data =
     (if source = EMBY
      then (case get_or source_data ''external_urls'' (PList []) of
              PList external_urls \<Rightarrow> scan_external_urls name external_urls
            | _ \<Rightarrow> Inr None)
      else Inr None)"

definition pick_bgmurl :: "table_name \<Rightarrow> pydict \<Rightarrow> pydict \<Rightarrow> error + pyval" where
  "pick_bgmurl source source_data anime_data =
     (if truthy (get source_data ''bangumi_url'') then Inr (get source_data ''bangumi_url'')
      else if truthy (get source_data ''bgmUrl'') then Inr (get source_data ''bgmUrl'')
      else case library_external_url ''bangumi'' source source_data of
             Inl e \<Rightarrow> Inl e
           | Inr (Some url) \<Rightarrow> Inr url
           | Inr None \<Rightarrow>
               (case (if source = EMBY then get source_data ''provider_ids'' else PNone) of
                  PDict provider_ids \<Rightarrow>
                    if truthy (get provider_ids ''Bangumi'')
                    then Inr (PStr (''https://bgm.tv/subject/'' @ py_str (get provider_ids ''Bangumi'')))
                    else if anime_data \<noteq> [] \<and> truthy (get anime_data ''bangumi_url'')
                    then Inr (get anime_data ''bangumi_url'')
                    else Inr PNone
                | _ \<Rightarrow>
                    if anime_data \<noteq> [] \<and> truthy (get anime_data ''bangumi_url'')
                    then Inr (get anime_data ''bangumi_url'')
                    else Inr PNone))"

text \<open>
  \<open>_pick_tmdb_url\<close>. The raw value counts when it is a string with something left
  after \<open>strip\<close>. The path of the synthesized URL is
  \<open>"tv" if media_type and media_type.lower() != 'movie' else "movie"\<close>.
\<close>

definition raw_tmdb_url :: "pydict \<Rightarrow> string option" where
  "raw_tmdb_url source_data =
     (case py_or (get source_data ''tmdb_url'') (get source_data ''tmdbUrl'') of
        PStr s \<Rightarrow> if strip s \<noteq> [] then Some (strip s) else None
      | _ \<Rightarrow> None)"

definition type_path :: "pyval \<Rightarrow> error + string" where
  "type_path media_type =
     (if truthy media_type
      then (case media_type of
              PStr s \<Rightarrow> Inr (if lower s \<noteq> ''movie'' then ''tv'' else ''movie'')
            | _ \<Rightarrow> Inl AttributeError)
      else Inr ''movie'')"

definition pick_tmdb_url :: "table_name \<Rightarrow> pydict \<Rightarrow> pydict \<Rightarrow> error + pyval" where
  "pick_tmdb_url source source_data anime_data =
     (case raw_tmdb_url source_data of
        Some url \<Rightarrow> Inr (PStr url)
      | None \<Rightarrow>
          (case library_external_url ''themoviedb'' source source_data of
             Inl e \<Rightarrow> Inl e
           | Inr (Some url) \<Rightarrow> Inr url
           | Inr None \<Rightarrow>
               (let tmdb_id = pick_tmdb_id source source_data anime_data
                in if truthy tmdb_id
                   then (case type_path (pick_media_type source source_data) of
                           Inl e \<Rightarrow> Inl e
                         | Inr p \<Rightarrow>
                             Inr (PStr (''https://www.themoviedb.org'' @ ''/'' @ p @ ''/''
                                        @ py_str tmdb_id)))
                   else Inr PNone)))"

subsection \<open>\<open>DataPicker._pick_subscriber\<close>\<close>

text \<open>
  The local function \<open>_parse_config_field\<close>; the expected type is given by its test.
  Under the contract of \<open>json.loads\<close> nothing in the body raises, so the outer handler
  of \<open>_pick_subscriber\<close>, which returns both defaults, is never entered.
\<close>

definition is_dict :: "pyval \<Rightarrow> bool" where
  "is_dict v = (case v of PDict _ \<Rightarrow> True | _ \<Rightarrow> False)"

definition is_list :: "pyval \<Rightarrow> bool" where
  "is_list v = (case v of PList _ \<Rightarrow> True | _ \<Rightarrow> False)"

definition parse_config_field ::
  "picker_env \<Rightarrow> pydict \<Rightarrow> string \<Rightarrow> (pyval \<Rightarrow> bool) \<Rightarrow> pyval \<Rightarrow> pyval" where
  "parse_config_field env anime_data field_name expected_type default_value =
     (let raw_data = get_or anime_data field_name default_value
      in if raw_data = PNone then default_value
         else if expected_type raw_data then raw_data
         else case raw_data of
                PStr s \<Rightarrow>
                  (case json_loads env s of
                     Some parsed \<Rightarrow> if expected_type parsed then parsed else default_value
                   | None \<Rightarrow> default_value)
              | _ \<Rightarrow> default_value)"

definition pick_subscriber :: "picker_env \<Rightarrow> pydict \<Rightarrow> pyval \<times> pyval" where
  "pick_subscriber env anime_data =
     (if anime_data = [] then (PDict [], PList [])
      else (parse_config_field env anime_data ''group_subscriber'' is_dict (PDict []),
            parse_config_field env anime_data ''private_subscriber'' is_list (PList [])))"

subsection \<open>\<open>DataPicker._pick_image_queue\<close>\<close>

text \<open>
  \<open>list(dict.fromkeys(filter(None, image_list)))\<close>: the values that are true, each
  kept where it first occurs. A list or a dictionary is not hashable, and the
  \<open>TypeError\<close> ends in the handler, which returns the empty list. \<open>True\<close> and
  \<open>1\<close> are the same key.
\<close>

definition hashable :: "pyval \<Rightarrow> bool" where
  "hashable v = (\<not> is_list v \<and> \<not> is_dict v)"

definition same_key :: "pyval \<Rightarrow> pyval \<Rightarrow> bool" where
  "same_key a b =
     (case (a, b) of
        (PBool x, PInt n) \<Rightarrow> n = (if x then 1 else 0)
      | (PInt n, PBool x) \<Rightarrow> n = (if x then 1 else 0)
      | _ \<Rightarrow> a = b)"

fun fromkeys :: "pyval list \<Rightarrow> pyval list \<Rightarrow> pyval list" where
  "fromkeys keys [] = keys"
| "fromkeys keys (v # vs) =
     (if list_ex (same_key v) keys then fromkeys keys vs else fromkeys (keys @ [v]) vs)"

definition pick_image_queue :: "picker_env \<Rightarrow> table_name \<Rightarrow> pydict \<Rightarrow> pydict \<Rightarrow> pyval" where
  "pick_image_queue env source source_data anime_data =
     (let image_list =
            (case source of
               EMBY \<Rightarrow>
                 (case generate_emby_image_url env (get source_data ''series_id'')
                         (get source_data ''series_tag'') of
                    Inr url \<Rightarrow> [url]
                  | Inl _ \<Rightarrow> [])
             | ANIRSS \<Rightarrow>
                 (if truthy (get source_data ''image_url'') then [get source_data ''image_url'']
                  else [])
             | ANIME \<Rightarrow> []);
          image_list = (if anime_data \<noteq> []
                        then image_list @ [get anime_data ''emby_image_url'',
                                           get anime_data ''ainrss_image_url'']
                        else image_list);
          filtered = filter truthy image_list
      in if list_all hashable filtered then PList (fromkeys [] filtered) else PList [])"

subsection \<open>\<open>DataPicker.pick\<close>\<close>

text \<open>
  The dictionary display evaluates its values in the order written, after the
  subscribers; the first field that raises ends \<open>pick\<close>.
\<close>

definition pick :: "picker_env \<Rightarrow> table_name \<Rightarrow> pydict \<Rightarrow> pydict \<Rightarrow> error + pydict" where
  "pick env source source_data anime_data =
     (let (group_subscriber, private_subscriber) = pick_subscriber env anime_data
      in case pick_id source source_data of
           Inl e \<Rightarrow> Inl e
         | Inr picked_id \<Rightarrow>
       (case pick_timestamp env source source_data of
           Inl e \<Rightarrow> Inl e
         | Inr timestamp \<Rightarrow>
       (case pick_bgmurl source source_data anime_data of
           Inl e \<Rightarrow> Inl e
         | Inr bgm_url \<Rightarrow>
       (case pick_tmdb_url source source_data anime_data of
           Inl e \<Rightarrow> Inl e
         | Inr tmdb_url \<Rightarrow>
             Inr [(''id'', picked_id),
                  (''title'', pick_title source source_data anime_data),
                  (''episode'', pick_episode source source_data),
                  (''episode_title'', pick_episode_title source source_data),
                  (''timestamp'', timestamp),
                  (''source'', pick_source source),
                  (''action'', pick_action source source_data),
                  (''score'', pick_score source source_data anime_data),
                  (''genres'', pick_genres source source_data anime_data),
                  (''tmdb_id'', pick_tmdb_id source source_data anime_data),
                  (''group_subscribers'', group_subscriber),
                  (''private_subscribers'', private_subscriber),
                  (''image_queue'', pick_image_queue env source source_data anime_data),
                  (''media_type'', pick_media_type source source_data),
                  (''season'', pick_season source source_data),
                  (''subgroup'', pick_subgroup source source_data),
                  (''progress'', pick_progress source source_data),
                  (''premiere'', pick_premiere source_data anime_data),
                  (''bgm_url'', bgm_url),
                  (''tmdb_url'', tmdb_url)]))))"

text \<open>
  The path of the synthesized URL in the words of the specification: \<open>movie\<close> only when
  the classification equals \<open>movie\<close> in any case, and \<open>tv\<close> for every other one,
  the absent one included.
\<close>

definition spec_type_path :: "pyval \<Rightarrow> string" where
  "spec_type_path media_type =
     (case media_type of
        PStr s \<Rightarrow> if lower s = ''movie'' then ''movie'' else ''tv''
      | _ \<Rightarrow> ''tv'')"

section \<open>The image cache selector\<close>

text \<open>
  The cache directory is a list of regular files, each with its bytes and its
  modification time in microseconds; a path is a string, and \<open>dir / name\<close> is the
  two joined by a slash. Errors of the operating system on \<open>exists\<close> and \<open>stat\<close>
  are not modelled.
\<close>

record cache_file =
  content :: string
  mtime :: int

type_synonym filesystem = "(string \<times> cache_file) list"

definition exists_path :: "filesystem \<Rightarrow> string \<Rightarrow> bool" where
  "exists_path fs p = (map_of fs p \<noteq> None)"

text \<open>Writing a file puts it at its path; removing a path drops every entry of it.\<close>

definition write_file :: "filesystem \<Rightarrow> string \<Rightarrow> cache_file \<Rightarrow> filesystem" where
  "write_file fs p f = (p, f) # filter (\<lambda>e. fst e \<noteq> p) fs"

definition remove_file :: "filesystem \<Rightarrow> string \<Rightarrow> filesystem" where
  "remove_file fs p = filter (\<lambda>e. fst e \<noteq> p) fs"

datatype url_source = EXTERNAL | EMBY_HOST

text \<open>How \<open>_save_bytes_to_cache\<close> ends: written and moved, failed before the temporary
  file is named, or failed later, when the handler removes the temporary file.\<close>

datatype write_outcome = Written | Failed_early | Failed_late

text \<open>
  The configuration and the collaborators of the selector:
  \<^item> \<open>WORKDIR.cache_dir\<close>, the path of the bundled default image, the clock,
    \<open>FUNCTION.emby_enabled\<close>;
  \<^item> \<open>_is_url\<close>, which rests on \<open>urllib.parse.urlparse\<close>;
  \<^item> \<open>generate_emby_image_url(APPCONFIG.emby_host, series_id, tag)\<close> of \<open>utils\<close>;
  \<^item> \<open>get_request\<close> of \<open>external\<close>: for a URL and its source, the time at which
    the fetch completes and its bytes, \<open>None\<close> when it raises;
  \<^item> how the write to the cache ends.
\<close>

record image_env =
  cache_dir :: "string option"
  default_image :: string
  now :: int
  emby_enabled :: bool
  is_url :: "string \<Rightarrow> bool"
  emby_image_url :: "string \<Rightarrow> string \<Rightarrow> error + string"
  get_request :: "string \<Rightarrow> url_source \<Rightarrow> nat \<times> string option"
  save_outcome :: write_outcome

text \<open>The attributes of an \<open>ImageSelector\<close> set by its constructor.\<close>

record selector =
  sel_image_queue :: "string list"
  sel_tmdb_id :: "string option"
  sel_source_data :: "pydict option"
  sel_emby_series_id :: pyval

definition get_cache_path :: "image_env \<Rightarrow> selector \<Rightarrow> string option" where
  "get_cache_path env sel =
     (let cache_key =
            (case sel_tmdb_id sel of
               Some t \<Rightarrow> if t \<noteq> [] \<and> t \<noteq> ''None'' then Some t
                         else if truthy (sel_emby_series_id sel)
                         then Some (''emby_'' @ py_str (sel_emby_series_id sel)) else None
             | None \<Rightarrow> if truthy (sel_emby_series_id sel)
                       then Some (''emby_'' @ py_str (sel_emby_series_id sel)) else None)
      in case (cache_key, cache_dir env) of
           (Some k, Some d) \<Rightarrow> Some (d @ ''/'' @ k @ ''.png'')
         | _ \<Rightarrow> None)"

text \<open>\<open>img_path.with_suffix('.tmp')\<close>: the path ends in \<open>.png\<close>.\<close>

definition temp_path_of :: "string \<Rightarrow> string" where
  "temp_path_of img_path = take (length img_path - 4) img_path @ ''.tmp''"

text \<open>\<open>_is_cache_img_expired\<close> with its default of fourteen days.\<close>

definition is_cache_img_expired :: "image_env \<Rightarrow> cache_file \<Rightarrow> bool" where
  "is_cache_img_expired env f = (now env - mtime f > 14 * 24 * 3600 * 1000000)"

text \<open>\<open>_search_in_localstore\<close> returns the path and sets \<open>is_image_expired\<close>.\<close>

definition search_in_localstore :: "image_env \<Rightarrow> selector \<Rightarrow> filesystem \<Rightarrow> string option \<times> bool" where
  "search_in_localstore env sel fs =
     (case get_cache_path env sel of
        None \<Rightarrow> (None, False)
      | Some local_img_path \<Rightarrow>
          (case map_of fs local_img_path of
             None \<Rightarrow> (None, False)
           | Some f \<Rightarrow> (Some local_img_path, is_cache_img_expired env f)))"

text \<open>\<open>_clean_image_queue\<close>: the dictionary from URL to source, in the order of insertion.\<close>

definition add_url :: "(string \<times> url_source) list \<Rightarrow> string \<Rightarrow> url_source \<Rightarrow> (string \<times> url_source) list" where
  "add_url url_dict url src = (if url \<in> fst ` set url_dict then url_dict else url_dict @ [(url, src)])"

fun clean_external :: "image_env \<Rightarrow> (string \<times> url_source) list \<Rightarrow> string list \<Rightarrow> (string \<times> url_source) list" where
  "clean_external env url_dict [] = url_dict"
| "clean_external env url_dict (tag_or_url # rest) =
     clean_external env
       (if is_url env tag_or_url then add_url url_dict tag_or_url EXTERNAL else url_dict) rest"

fun clean_with_source :: "image_env \<Rightarrow> pyval \<Rightarrow> (string \<times> url_source) list \<Rightarrow> string list \<Rightarrow> (string \<times> url_source) list" where
  "clean_with_source env series_id url_dict [] = url_dict"
| "clean_with_source env series_id url_dict (tag_or_url # rest) =
     clean_with_source env series_id
       (if is_url env tag_or_url then add_url url_dict tag_or_url EXTERNAL
        else if emby_enabled env \<and> truthy series_id
        then (case emby_image_url env (py_str series_id) tag_or_url of
                Inr url \<Rightarrow> add_url url_dict url EMBY_HOST
              | Inl _ \<Rightarrow> url_dict)
        else url_dict) rest"

definition clean_image_queue :: "image_env \<Rightarrow> selector \<Rightarrow> (string \<times> url_source) list" where
  "clean_image_queue env sel =
     (case sel_source_data sel of
        None \<Rightarrow> clean_external env [] (sel_image_queue sel)
      | Some sd \<Rightarrow>
          if sd = [] then clean_external env [] (sel_image_queue sel)
          else clean_with_source env (get sd ''series_id'') [] (sel_image_queue sel))"

text \<open>
  \<open>_download_first_valid_image\<close>: all fetches run at once, and the first one to
  complete without raising gives the bytes; a fetch created earlier wins a tie.
\<close>

fun first_completed :: "(nat \<times> string) option \<Rightarrow> (nat \<times> string option) list \<Rightarrow> string option" where
  "first_completed best [] = map_option snd best"
| "first_completed best ((t, None) # rest) = first_completed best rest"
| "first_completed best ((t, Some b) # rest) =
     first_completed (case best of
                        None \<Rightarrow> Some (t, b)
                      | Some (t', b') \<Rightarrow> if t < t' then Some (t, b) else Some (t', b')) rest"

definition download_first_valid_image :: "image_env \<Rightarrow> (string \<times> url_source) list \<Rightarrow> string option" where
  "download_first_valid_image env url_dict =
     first_completed None (map (\<lambda>(url, src). get_request env url src) url_dict)"

definition save_bytes_to_cache :: "image_env \<Rightarrow> selector \<Rightarrow> filesystem \<Rightarrow> string \<Rightarrow> filesystem \<times> string option" where
  "save_bytes_to_cache env sel fs binary =
     (case get_cache_path env sel of
        None \<Rightarrow> (fs, None)
      | Some img_path \<Rightarrow>
          (case save_outcome env of
             Written \<Rightarrow>
               (write_file (remove_file fs (temp_path_of img_path)) img_path
                  \<lparr>content = binary, mtime = now env\<rparr>, Some img_path)
           | Failed_early \<Rightarrow> (fs, None)
           | Failed_late \<Rightarrow> (remove_file fs (temp_path_of img_path), None)))"

definition process_image_queue :: "image_env \<Rightarrow> selector \<Rightarrow> filesystem \<Rightarrow> filesystem \<times> string option" where
  "process_image_queue env sel fs =
     (if sel_image_queue sel = [] then (fs, None)
      else let cleaned_urls = clean_image_queue env sel
           in if cleaned_urls = [] then (fs, None)
              else case download_first_valid_image env cleaned_urls of
                     None \<Rightarrow> (fs, None)
                   | Some image_data \<Rightarrow>
                       if image_data = [] then (fs, None)
                       else save_bytes_to_cache env sel fs image_data)"

definition get_default_image :: "image_env \<Rightarrow> filesystem \<Rightarrow> string option" where
  "get_default_image env fs =
     (if exists_path fs (default_image env) then Some (default_image env) else None)"

definition fallback_to_available_image :: "image_env \<Rightarrow> filesystem \<Rightarrow> string option \<Rightarrow> string option" where
  "fallback_to_available_image env fs output_img =
     (case output_img of
        Some p \<Rightarrow> if exists_path fs p then Some p else get_default_image env fs
      | None \<Rightarrow> get_default_image env fs)"

text \<open>\<open>ImageSelector.select\<close>: the file system after the call and the path returned.\<close>

definition select :: "image_env \<Rightarrow> selector \<Rightarrow> filesystem \<Rightarrow> filesystem \<times> string option" where
  "select env sel fs =
     (let (output_img, is_image_expired) = search_in_localstore env sel fs
      in if output_img \<noteq> None \<and> \<not> is_image_expired then (fs, output_img)
         else case process_image_queue env sel fs of
                (fs', Some result) \<Rightarrow> (fs', Some result)
              | (fs', None) \<Rightarrow> (fs', fallback_to_available_image env fs' output_img))"

section \<open>The pipeline orchestrator\<close>

text \<open>
  What a run does to the outside is recorded as a trace of actions: the queries and
  the write to the store, the image selection, the hand-over to the merge buffer, every
  call of the renderer and every call of the transport. The write to the store carries
  the id of the record and whether it succeeded.
\<close>

datatype action =
    Select_unsent
  | Select_anime int
  | Select_image
  | Upsert_sent pyval bool
  | Buffer_add string
  | Render_all
  | Render_merged
  | Render_base
  | Render_at string
  | Send_private string "string list"
  | Send_group string string

text \<open>
  The collaborators of a run, which are not part of the pipeline: the store
  (\<open>DatabaseOperator\<close> with \<open>convert_db_list_first_row_to_dict\<close>, a raised error as
  \<open>Inl\<close>, no row as \<open>None\<close>), the default schema of the enrichment table, the
  configured push targets of the source, the order in which a Python set is iterated,
  the renderer (\<open>None\<close> when it raises), the transport (\<open>False\<close> when it raises), and
  whether the debounce timer started by the run fires before a later arrival cancels it.
\<close>

record run_env =
  picker :: picker_env
  imager :: image_env
  db_select_unsent :: "error + pydict option"
  db_select_anime :: "int \<Rightarrow> error + pydict option"
  db_upsert_sent :: "pyval \<Rightarrow> bool"
  default_anime_schema :: pydict
  private_push_target :: "string list"
  group_push_target :: "string list"
  set_order :: "string list \<Rightarrow> string list"
  render_all :: "pydict \<Rightarrow> string option"
  render_merged :: "pydict \<Rightarrow> string option"
  render_base :: "pydict \<Rightarrow> string option"
  render_at :: "pydict \<Rightarrow> string option"
  private_msg_pusher :: "string \<Rightarrow> string list \<Rightarrow> bool"
  group_msg_pusher :: "string \<Rightarrow> string \<Rightarrow> bool"
  timer_fires :: bool

text \<open>The state that outlives a run: the image cache and the buckets of the merge buffer.\<close>

record run_state =
  cache :: filesystem
  buffer :: "(string \<times> pydict list) list"

subsection \<open>\<open>PushManager._get_tmdb_id\<close> and the enrichment record\<close>

definition get_tmdb_id :: "pydict \<Rightarrow> int option" where
  "get_tmdb_id data =
     (let tmdb_id_value = get data ''tmdb_id''
      in if tmdb_id_value = PStr ''None'' \<or> tmdb_id_value = PNone then None
         else case py_int tmdb_id_value of Inr n \<Rightarrow> Some n | Inl _ \<Rightarrow> None)"

text \<open>
  The third \<open>try\<close> of \<open>execute\<close>: the actions on the store and the enrichment record.
  A reference id of zero raises before the store is asked.
\<close>

definition anime_stage :: "run_env \<Rightarrow> int option \<Rightarrow> action list \<times> pydict" where
  "anime_stage env tmdb =
     (case tmdb of
        None \<Rightarrow> ([], default_anime_schema env)
      | Some n \<Rightarrow>
          if n = 0 then ([], default_anime_schema env)
          else (case db_select_anime env n of
                  Inr (Some anime_db_data) \<Rightarrow> ([Select_anime n], anime_db_data)
                | _ \<Rightarrow> ([Select_anime n], default_anime_schema env)))"

subsection \<open>\<open>PushManager._pushtarget_conflate\<close>\<close>

text \<open>\<open>map(str, v)\<close> over a value: a list, the keys of a dictionary, the characters of
  a string; anything else is not iterable.\<close>

definition str_items :: "pyval \<Rightarrow> error + string list" where
  "str_items v =
     (case v of
        PList xs \<Rightarrow> Inr (map py_str xs)
      | PDict d \<Rightarrow> Inr (map fst d)
      | PStr s \<Rightarrow> Inr (map (\<lambda>c. [c]) s)
      | _ \<Rightarrow> Inl TypeError)"

text \<open>
  The subscribers of one group: \<open>get(group_id, []) or get(int(group_id), []) or []\<close>.
  The dictionaries of the model have string keys, so the second lookup finds nothing;
  \<open>int\<close> may raise before it.
\<close>

definition group_target :: "pyval \<Rightarrow> string \<Rightarrow> error + pyval" where
  "group_target group_subscribers group_id =
     (case group_subscribers of
        PDict d \<Rightarrow>
          if truthy (get_or d group_id (PList [])) then Inr (get_or d group_id (PList []))
          else (case py_int (PStr group_id) of
                  Inl e \<Rightarrow> Inl e
                | Inr _ \<Rightarrow> Inr (PList []))
      | _ \<Rightarrow> Inl AttributeError)"

fun group_targets :: "pyval \<Rightarrow> string list \<Rightarrow> error + (string \<times> pyval) list" where
  "group_targets group_subscribers [] = Inr []"
| "group_targets group_subscribers (group_id # rest) =
     (case group_target group_subscribers group_id of
        Inl e \<Rightarrow> Inl e
      | Inr subscriber \<Rightarrow>
          (case group_targets group_subscribers rest of
             Inl e \<Rightarrow> Inl e
           | Inr targets \<Rightarrow> Inr ((group_id, subscriber) # targets)))"

definition pushtarget_conflate ::
  "run_env \<Rightarrow> pydict \<Rightarrow> error + string list \<times> (string \<times> pyval) list" where
  "pushtarget_conflate env picked_params =
     (let private_subscribers = py_or (get_or picked_params ''private_subscribers'' (PList []))
                                      (PList []);
          group_subscribers = py_or (get_or picked_params ''group_subscribers'' (PDict []))
                                    (PDict [])
      in case str_items private_subscribers of
           Inl e \<Rightarrow> Inl e
         | Inr private_subscribers_str \<Rightarrow>
             (case group_targets group_subscribers
                     (set_order env (remdups (group_push_target env))) of
                Inl e \<Rightarrow> Inl e
              | Inr targets \<Rightarrow>
                  Inr (set_order env
                         (filter (\<lambda>u. u \<in> set (private_push_target env))
                            (remdups private_subscribers_str)),
                       targets)))"

subsection \<open>\<open>PushManager._do_push\<close>\<close>

text \<open>The loop of \<open>_push_to_group\<close>; an error of the renderer or of the transport ends it.\<close>

fun push_groups :: "run_env \<Rightarrow> string \<Rightarrow> pydict \<Rightarrow> (string \<times> pyval) list \<Rightarrow> action list" where
  "push_groups env base_message message_params [] = []"
| "push_groups env base_message message_params ((group_id, subscriber) # rest) =
     Render_at group_id #
       (case render_at env (setitem message_params ''at'' subscriber) of
          None \<Rightarrow> []
        | Some at_message \<Rightarrow>
            Send_group (base_message @ at_message) group_id #
              (if group_msg_pusher env (base_message @ at_message) group_id
               then push_groups env base_message (setitem message_params ''at'' subscriber) rest
               else []))"

definition push_to_group :: "run_env \<Rightarrow> pydict \<Rightarrow> (string \<times> pyval) list \<Rightarrow> action list" where
  "push_to_group env message_params targets =
     (if targets = [] then []
      else Render_base #
             (case render_base env message_params of
                None \<Rightarrow> []
              | Some base_message \<Rightarrow> push_groups env base_message message_params targets))"

text \<open>
  \<open>_do_push\<close> for the targets of the run: the rendering, the private push, whose error
  is not caught and ends the call, and the group push. The flag returned tells whether
  the call raised.
\<close>

definition do_push ::
  "run_env \<Rightarrow> string list \<Rightarrow> (string \<times> pyval) list \<Rightarrow> pydict \<Rightarrow> bool \<Rightarrow> action list \<times> bool" where
  "do_push env private_targets group_targets_of_run message_params is_merged =
     (case (if is_merged then render_merged env message_params else render_all env message_params) of
        None \<Rightarrow> ([if is_merged then Render_merged else Render_all], False)
      | Some message \<Rightarrow>
          if private_targets = []
          then ((if is_merged then Render_merged else Render_all) #
                  push_to_group env message_params group_targets_of_run, False)
          else if private_msg_pusher env message private_targets
          then ((if is_merged then Render_merged else Render_all) #
                  Send_private message private_targets #
                  push_to_group env message_params group_targets_of_run, False)
          else ([if is_merged then Render_merged else Render_all,
                 Send_private message private_targets], True))"

subsection \<open>The merge buffer as the orchestrator uses it\<close>

definition label_unknown_title :: string where
  "label_unknown_title =
     [CHR 0xE6, CHR 0x9C, CHR 0xAA, CHR 0xE7, CHR 0x9F, CHR 0xA5, CHR 0xE6, CHR 0xA0, CHR 0x87,
      CHR 0xE9, CHR 0xA2, CHR 0x98]"

definition buffer_key :: "pyval \<Rightarrow> pydict \<Rightarrow> string" where
  "buffer_key title episode_data =
     py_str title @ ''_S'' @ extract_season_number (get_or episode_data ''season'' (PStr ''1''))"

text \<open>\<open>add_episode\<close> appends the event to the bucket of its key, which it creates when
  there is none.\<close>

definition add_episode ::
  "(string \<times> pydict list) list \<Rightarrow> pyval \<Rightarrow> pydict \<Rightarrow> (string \<times> pydict list) list" where
  "add_episode buf title episode_data =
     (let k = buffer_key title episode_data
      in case map_of buf k of
           None \<Rightarrow> buf @ [(k, [episode_data])]
         | Some episodes \<Rightarrow> map (\<lambda>(k', es). if k' = k then (k', es @ [episode_data]) else (k', es)) buf)"

text \<open>
  \<open>_delayed_push\<close> after the sleep: nothing for an empty bucket; otherwise the merged
  event goes to the callback, the \<open>_do_push\<close> of the run, and the bucket is deleted,
  also when the merge or the callback raises.
\<close>

definition delayed_push ::
  "run_env \<Rightarrow> string list \<Rightarrow> (string \<times> pyval) list \<Rightarrow> string \<Rightarrow>
   (string \<times> pydict list) list \<Rightarrow> action list \<times> (string \<times> pydict list) list" where
  "delayed_push env private_targets group_targets_of_run k buf =
     (case map_of buf k of
        None \<Rightarrow> ([], buf)
      | Some episodes \<Rightarrow>
          if episodes = [] then ([], buf)
          else (case merge_episodes episodes
                       (get_or (hd episodes) ''title'' (PStr label_unknown_title)) of
                  Inl _ \<Rightarrow> ([], filter (\<lambda>b. fst b \<noteq> k) buf)
                | Inr merged_data \<Rightarrow>
                    (fst (do_push env private_targets group_targets_of_run merged_data True),
                     filter (\<lambda>b. fst b \<noteq> k) buf)))"

text \<open>
  The key of a bucket ends in the season number of each of its events. This holds of
  the empty buffer and is kept by \<open>add_episode\<close> and by \<open>_delayed_push\<close>.
\<close>

definition bucket_uniform :: "(string \<times> pydict list) list \<Rightarrow> bool" where
  "bucket_uniform buf =
     (\<forall>(k, es) \<in> set buf. \<forall>e \<in> set es. \<exists>t. k = t @ ''_S'' @ season_of e)"

subsection \<open>\<open>PushManager.execute\<close>\<close>

definition queue_of :: "pyval \<Rightarrow> string list" where
  "queue_of v = (case v of PList xs \<Rightarrow> map py_str xs | _ \<Rightarrow> [])"

definition path_value :: "string option \<Rightarrow> pyval" where
  "path_value p = (case p of None \<Rightarrow> PNone | Some s \<Rightarrow> PStr s)"

text \<open>
  The end of \<open>execute\<close>, after the record is marked as sent: the test of the title
  and the routing by the media type. \<open>media_type.lower()\<close> raises on a value that is
  true and not a string, and the run ends there. An event for the buffer starts a
  timer; when that timer fires, the bucket is flushed through the \<open>_do_push\<close> of this
  run.
\<close>

definition route_stage ::
  "run_env \<Rightarrow> string list \<Rightarrow> (string \<times> pyval) list \<Rightarrow> pydict \<Rightarrow>
   (string \<times> pydict list) list \<Rightarrow> action list \<times> (string \<times> pydict list) list" where
  "route_stage env private_targets group_targets_of_run message_params buf =
     (let media_type = get message_params ''media_type'';
          title = get message_params ''title''
      in if \<not> truthy title then ([], buf)
         else if \<not> truthy media_type
         then (fst (do_push env private_targets group_targets_of_run message_params False), buf)
         else case media_type of
                PStr m \<Rightarrow>
                  if lower m = ''movie''
                  then (fst (do_push env private_targets group_targets_of_run message_params False),
                        buf)
                  else if lower m = ''episode'' \<or> lower m = ''series''
                  then (let buf' = add_episode buf title message_params;
                            k = buffer_key title message_params
                        in if timer_fires env
                           then (let (flushed, buf'') =
                                       delayed_push env private_targets group_targets_of_run k buf'
                                 in (Buffer_add k # flushed, buf''))
                           else ([Buffer_add k], buf'))
                  else (fst (do_push env private_targets group_targets_of_run message_params False),
                        buf)
              | _ \<Rightarrow> ([], buf))"

text \<open>\<open>_change_send_status\<close> and what follows it.\<close>

definition commit_stage ::
  "run_env \<Rightarrow> pyval \<Rightarrow> string list \<Rightarrow> (string \<times> pyval) list \<Rightarrow> pydict \<Rightarrow>
   (string \<times> pydict list) list \<Rightarrow> action list \<times> (string \<times> pydict list) list" where
  "commit_stage env unsend_data_id private_targets group_targets_of_run message_params buf =
     (if db_upsert_sent env unsend_data_id
      then (let (routed, buf') =
                  route_stage env private_targets group_targets_of_run message_params buf
            in (Upsert_sent unsend_data_id True # routed, buf'))
      else ([Upsert_sent unsend_data_id False], buf))"

text \<open>
  \<open>execute\<close> with the flush that its timer may trigger: the trace of the run and the
  state after it.
\<close>

definition execute :: "run_env \<Rightarrow> table_name \<Rightarrow> run_state \<Rightarrow> action list \<times> run_state" where
  "execute env source st =
     (case db_select_unsent env of
        Inl _ \<Rightarrow> ([Select_unsent], st)
      | Inr None \<Rightarrow> ([Select_unsent], st)
      | Inr (Some unsend_data) \<Rightarrow>
          if \<not> truthy (get unsend_data ''id'') then ([Select_unsent], st)
          else
            (let unsend_data_id = get unsend_data ''id'';
                 tmdb = get_tmdb_id unsend_data;
                 (anime_actions, anime_db_data) = anime_stage env tmdb
             in case pick (picker env) source unsend_data anime_db_data of
                  Inl _ \<Rightarrow> (Select_unsent # anime_actions, st)
                | Inr message_params \<Rightarrow>
                    (let (cache', image_path) =
                           select (imager env)
                             \<lparr>sel_image_queue = queue_of (get_or message_params ''image_queue'' (PList [])),
                              sel_tmdb_id = Some (case tmdb of None \<Rightarrow> ''None'' | Some n \<Rightarrow> dec_int n),
                              sel_source_data = Some unsend_data,
                              sel_emby_series_id = get unsend_data ''series_id''\<rparr>
                             (cache st);
                         message_params = setitem message_params ''image'' (path_value image_path);
                         st' = st\<lparr>cache := cache'\<rparr>
                     in case pushtarget_conflate env message_params of
                          Inl _ \<Rightarrow> (Select_unsent # anime_actions @ [Select_image], st')
                        | Inr (private_targets, group_targets_of_run) \<Rightarrow>
                            (let (committed, buf') =
                                   commit_stage env unsend_data_id private_targets
                                     group_targets_of_run message_params (buffer st')
                             in (Select_unsent # anime_actions @ [Select_image] @ committed,
                                 st'\<lparr>buffer := buf'\<rparr>)))))"

subsection \<open>The order of the actions of a run\<close>

definition is_render :: "action \<Rightarrow> bool" where
  "is_render a =
     (case a of Render_all \<Rightarrow> True | Render_merged \<Rightarrow> True | Render_base \<Rightarrow> True
      | Render_at _ \<Rightarrow> True | _ \<Rightarrow> False)"

definition is_dispatch :: "action \<Rightarrow> bool" where
  "is_dispatch a = (case a of Send_private _ _ \<Rightarrow> True | Send_group _ _ \<Rightarrow> True | _ \<Rightarrow> False)"

definition is_commit :: "action \<Rightarrow> bool" where
  "is_commit a = (case a of Upsert_sent _ ok \<Rightarrow> ok | _ \<Rightarrow> False)"

definition is_failed_commit :: "action \<Rightarrow> bool" where
  "is_failed_commit a = (case a of Upsert_sent _ ok \<Rightarrow> \<not> ok | _ \<Rightarrow> False)"

text \<open>
  Every render and every dispatch of the trace comes after a successful write of the
  sent flag; the flag tells whether such a write has been seen.
\<close>

fun committed_first :: "bool \<Rightarrow> action list \<Rightarrow> bool" where
  "committed_first seen [] = True"
| "committed_first seen (a # as) =
     ((is_render a \<or> is_dispatch a \<longrightarrow> seen) \<and> committed_first (seen \<or> is_commit a) as)"

subsection \<open>An example run\<close>

text \<open>
  A library record of a film with a reference id, an enrichment record with one private
  and one group subscriber, both allowed by the configuration; the store accepts or
  refuses the write of the sent flag.
\<close>

definition example_env :: "bool \<Rightarrow> run_env" where
  "example_env upsert_ok =
     \<lparr>picker = \<lparr>json_loads = (\<lambda>s. None), fromisoformat_strftime = (\<lambda>s. None),
                generate_emby_image_url = (\<lambda>series_id tag. Inl ValueError)\<rparr>,
      imager = \<lparr>cache_dir = Some ''/data/cache'', default_image = ''/res/default_img.png'',
                now = 0, emby_enabled = False, is_url = (\<lambda>u. False),
                emby_image_url = (\<lambda>series_id tag. Inl ValueError),
                get_request = (\<lambda>url src. (0, None)), save_outcome = Failed_early\<rparr>,
      db_select_unsent =
        Inr (Some [(''id'', PInt 7), (''title'', PStr ''Film''), (''type'', PStr ''Movie''),
                   (''tmdb_id'', PInt 5)]),
      db_select_anime =
        (\<lambda>n. Inr (Some [(''tmdb_id'', PInt 5), (''private_subscriber'', PList [PStr ''u1'']),
                         (''group_subscriber'', PDict [(''g1'', PList [PStr ''u2''])])])),
      db_upsert_sent = (\<lambda>i. upsert_ok),
      default_anime_schema = [],
      private_push_target = [''u1''],
      group_push_target = [''g1''],
      set_order = (\<lambda>xs. xs),
      render_all = (\<lambda>mp. Some ''text''),
      render_merged = (\<lambda>mp. Some ''merged''),
      render_base = (\<lambda>mp. Some ''base''),
      render_at = (\<lambda>mp. Some ''@u2''),
      private_msg_pusher = (\<lambda>message users. True),
      group_msg_pusher = (\<lambda>message group_id. True),
      timer_fires = False\<rparr>"

definition example_state :: run_state where
  "example_state = \<lparr>cache = [], buffer = []\<rparr>"

section \<open>Properties of the range formatter\<close>

lemma runs_le: "(a, b) \<in> set (runs xs) \<Longrightarrow> a \<le> b"
proof (induction xs arbitrary: a b)
  case Nil
  then show ?case by simp
next
  case (Cons x xs)
  show ?case
  proof (cases "runs xs")
    case Nil
    with Cons.prems show ?thesis by simp
  next
    case (Cons r rs)
    obtain c d where r: "r = (c, d)" by (cases r)
    have cd: "c \<le> d" using Cons.IH [of c d] Cons r by simp
    show ?thesis
      using Cons.prems Cons r cd Cons.IH [of a b]
      by (auto split: if_splits)
  qed
qed

text \<open>
  The loop, started in the middle of a run from \<open>start\<close> to \<open>end\<close>, labels that run
  joined with the runs of the rest of the list.
\<close>

lemma range_loop_runs:
  "range_loop acc s e xs =
     acc @ map (\<lambda>(a, b). range_label a b)
       (case runs xs of [] \<Rightarrow> [(s, e)]
        | (a, b) # rs \<Rightarrow> if a = e + 1 then (s, b) # rs else (s, e) # (a, b) # rs)"
proof (induction xs arbitrary: acc s e)
  case Nil
  show ?case by simp
next
  case (Cons x xs)
  show ?case
    by (cases "runs xs") (auto simp: Cons.IH)
qed

lemma run_label_range_label: "fst r \<le> snd r \<Longrightarrow> run_label r = range_label (fst r) (snd r)"
  by (auto simp: run_label_def range_label_def)

lemma map_run_label: "map run_label (runs xs) = map (\<lambda>(a, b). range_label a b) (runs xs)"
  by (rule map_cong) (auto dest: runs_le simp: run_label_range_label)

lemma expand_runs_runs: "expand_runs (runs xs) = xs"
proof (induction xs)
  case Nil
  show ?case by (simp add: expand_runs_def)
next
  case (Cons x xs)
  show ?case
  proof (cases "runs xs")
    case Nil
    with Cons show ?thesis by (simp add: expand_runs_def)
  next
    case (Cons r rs)
    obtain a b where r: "r = (a, b)" by (cases r)
    have ab: "a \<le> b" using runs_le [of a b xs] Cons r by simp
    show ?thesis
      using Cons.IH Cons r ab
      by (auto simp: expand_runs_def upto_rec1 [of x])
  qed
qed

lemma maximal_runs_runs: "maximal_runs (runs xs)"
proof (induction xs)
  case Nil
  show ?case by simp
next
  case (Cons x xs)
  show ?case
  proof (cases "runs xs")
    case Nil
    then show ?thesis by simp
  next
    case (Cons r rs)
    obtain a b where r: "r = (a, b)" by (cases r)
    show ?thesis
      using Cons.IH Cons r
      by (cases rs) auto
  qed
qed

lemma format_episode_range_runs:
  assumes "xs \<noteq> []"
  shows "format_episode_range xs = join '','' (map run_label (runs xs))"
proof (cases xs)
  case Nil
  with assms show ?thesis by simp
next
  case (Cons x ys)
  show ?thesis
  proof (cases ys)
    case Nil
    with \<open>xs = x # ys\<close> show ?thesis by (simp add: format_episode_range_def run_label_def)
  next
    case (Cons y zs)
    have "range_loop [] x x ys = map run_label (runs (x # ys))"
      unfolding map_run_label range_loop_runs by (cases "runs ys") auto
    with Cons \<open>xs = x # ys\<close> show ?thesis by (simp add: format_episode_range_def)
  qed
qed

text \<open>
  Claim C3, as the code has it. The marker returned for the empty list is the label
  \<open>label_unknown\<close>, the two CJK characters U+672A U+77E5, and not the ASCII word.
  A singleton renders as \<open>E\<close> and the number in the format \<open>02d\<close>. For every list
  that is not empty the result is the labels of its runs joined by commas, where the
  runs cover the list in its order (\<open>expand_runs\<close>), each run is a stretch of
  successive numbers that cannot be extended (\<open>maximal_runs\<close>), a run of two numbers
  or more is labelled \<open>Eaa-Ebb\<close> and a number alone \<open>Enn\<close>. For a sorted list
  without duplicates the runs are therefore in ascending order.
\<close>

theorem format_episode_range_spec:
  "format_episode_range [] = label_unknown \<and>
   format_episode_range [n] = ''E'' @ fmt_02d n \<and>
   (xs \<noteq> [] \<longrightarrow> format_episode_range xs = join '','' (map run_label (runs xs))) \<and>
   expand_runs (runs xs) = xs \<and>
   maximal_runs (runs xs)"
proof -
  have "format_episode_range [] = label_unknown"
    and "format_episode_range [n] = ''E'' @ fmt_02d n"
    by (simp_all add: format_episode_range_def)
  then show ?thesis
    by (simp add: format_episode_range_runs expand_runs_runs maximal_runs_runs)
qed

theorem format_episode_range_spec_witness:
  "[1, 3, 5, 6, 7, 10] \<noteq> ([] :: int list) \<and>
   format_episode_range [1, 3, 5, 6, 7, 10] = ''E01,E03,E05-E07,E10'' \<and>
   runs [1, 3, 5, 6, 7, 10] = [(1, 1), (3, 3), (5, 7), (10, 10)] \<and>
   format_episode_range [7] = ''E07''"
  using format_episode_range_spec [of 7 "[1, 3, 5, 6, 7, 10]"] by code_simp

text \<open>The claim as the specification words it fails on the empty list.\<close>

theorem format_episode_range_unknown_counterexample:
  "format_episode_range [] \<noteq> ''unknown''"
  by code_simp

section \<open>Properties of the merged event\<close>

lemma map_of_setitem: "map_of (setitem d k v) = (map_of d)(k \<mapsto> v)"
  by (induction d k v rule: setitem.induct) (auto simp: fun_eq_iff)

lemma map_of_update_dict: "map_of (update_dict d kvs) = map_of d ++ map_of (rev kvs)"
proof (induction d kvs rule: update_dict.induct)
  case (1 d)
  show ?case by simp
next
  case (2 d k v kvs)
  show ?case
    by (simp add: 2 map_of_setitem fun_eq_iff map_add_def split: option.splits)
qed

lemma setitem_same: "map_of d k = Some v \<Longrightarrow> map_of (setitem d k v) = map_of d"
  by (auto simp: map_of_setitem fun_eq_iff)

lemma truthy_get_Some: "truthy (get d k) \<Longrightarrow> map_of d k = Some (get d k)"
  by (auto simp: get_def get_or_def split: option.splits)

lemma collect_numbers_fst:
  "fst (collect_numbers es acc s) = acc @ filter (\<lambda>n. n \<noteq> 0) (map episode_of es)"
  by (induction es arbitrary: acc s) (simp_all add: Let_def episode_of_def)

lemma collect_numbers_snd_Some: "snd (collect_numbers es acc (Some s)) = Some s"
  by (induction es arbitrary: acc) (simp_all add: Let_def)

lemma collect_numbers_snd_None:
  "es \<noteq> [] \<Longrightarrow> snd (collect_numbers es acc None) = Some (season_of (hd es))"
  by (cases es) (simp_all add: Let_def collect_numbers_snd_Some season_of_def)

lemma merged_action_str:
  assumes "get_or e ''source'' (PStr '''') = PStr s"
  shows "merged_action e =
     Inr (if contains ''EMBY'' (upper s) then PStr label_batch_library_update
          else if truthy (get e ''action'') then get e ''action''
          else PStr label_merged_download)"
  using assms by (simp add: merged_action_def Let_def)

lemma merged_action_Inr_iff: "(\<exists>a. merged_action e = Inr a) \<longleftrightarrow> source_is_str e"
  by (auto simp: merged_action_def source_is_str_def Let_def split: pyval.splits)

text \<open>
  The merged dictionary is the first event with the eight keys written over it; writing
  the image of the first event back changes nothing.
\<close>

lemma merge_episodes_map_of:
  assumes "es \<noteq> []" and "merged_action (last es) = Inr action"
  shows "\<exists>m. merge_episodes es title = Inr m \<and>
     map_of m = map_of (hd es) ++ map_of (rev
        [(''title'', title),
         (''season'', PStr (season_or_1 (snd (collect_numbers es [] None)))),
         (''episode_count'',
            PInt (int (length (sorted_list_of_set (set (fst (collect_numbers es [] None))))))),
         (''episode_range'',
            PStr (format_episode_range
              (sorted_list_of_set (set (fst (collect_numbers es [] None)))))),
         (''episode_list'',
            PList (map PInt (sorted_list_of_set (set (fst (collect_numbers es [] None)))))),
         (''is_merged'', PBool True),
         (''action'', action),
         (''timestamp'', get (last es) ''timestamp'')])"
proof -
  obtain first rest where es: "es = first # rest"
    using assms(1) by (cases es) auto
  have *: "map_of (setitem (update_dict first kvs) ''image'' (get first ''image'')) =
           map_of (update_dict first kvs)"
    if "truthy (get first ''image'')" "map_of kvs ''image'' = None" for kvs
  proof -
    have "map_of first ''image'' = Some (get first ''image'')"
      using that(1) by (rule truthy_get_Some)
    moreover have "map_of (rev kvs) ''image'' = None"
      using that(2) by (simp add: map_of_eq_None_iff)
    ultimately show ?thesis
      by (intro setitem_same) (simp add: map_of_update_dict map_add_Some_iff)
  qed
  obtain c sn where cs: "collect_numbers (first # rest) [] None = (c, sn)"
    by (cases "collect_numbers (first # rest) [] None")
  show ?thesis
    unfolding merge_episodes_def es cs
    using assms(2) [unfolded es]
    by (simp add: Let_def * map_of_update_dict
        del: collect_numbers.simps update_dict.simps last.simps)
qed

lemma merge_episodes_returns:
  "(\<exists>m. merge_episodes es title = Inr m) \<longleftrightarrow> es \<noteq> [] \<and> source_is_str (last es)"
proof
  assume "\<exists>m. merge_episodes es title = Inr m"
  then obtain m where m: "merge_episodes es title = Inr m" ..
  have ne: "es \<noteq> []"
    using m by (auto simp: merge_episodes_def Let_def split: prod.splits)
  moreover have "\<exists>a. merged_action (last es) = Inr a"
    using m ne
    by (cases es; cases "merged_action (last es)")
       (auto simp: merge_episodes_def Let_def split: prod.splits
             simp del: collect_numbers.simps update_dict.simps last.simps)
  ultimately show "es \<noteq> [] \<and> source_is_str (last es)"
    by (simp add: merged_action_Inr_iff)
next
  assume a: "es \<noteq> [] \<and> source_is_str (last es)"
  then obtain action where "merged_action (last es) = Inr action"
    using merged_action_Inr_iff by blast
  with a merge_episodes_map_of [of es action title] show "\<exists>m. merge_episodes es title = Inr m"
    by blast
qed

lemma get_map_of: "get m k = (case map_of m k of None \<Rightarrow> PNone | Some v \<Rightarrow> v)"
  by (simp add: get_def get_or_def)

lemma first_digit_run_nonempty:
  assumes "first_digit_run s = Some m"
  shows "m \<noteq> []"
proof -
  obtain c cs where d: "dropWhile (\<lambda>c. \<not> is_digit c) s = c # cs"
    and m: "m = takeWhile is_digit (c # cs)"
    using assms by (auto simp: first_digit_run_def split: list.splits)
  have "is_digit c"
    using hd_dropWhile [of "\<lambda>c. \<not> is_digit c" s] d by simp
  with m show ?thesis by simp
qed

lemma season_of_nonempty: "season_of e \<noteq> []"
  by (auto simp: season_of_def extract_season_number_def dest: first_digit_run_nonempty
      split: option.splits)

lemma merge_episodes_fields:
  assumes "es \<noteq> []" and "merged_action (last es) = Inr action"
  shows "\<exists>m. merge_episodes es title = Inr m \<and>
     get m ''title'' = title \<and>
     get m ''season'' = PStr (season_of (hd es)) \<and>
     get m ''episode_count'' =
       PInt (int (card (set (filter (\<lambda>n. n \<noteq> 0) (map episode_of es))))) \<and>
     get m ''action'' = action \<and>
     get m ''timestamp'' = get (last es) ''timestamp'' \<and>
     (\<forall>k. k \<notin> overwritten_keys \<longrightarrow> map_of m k = map_of (hd es) k)"
proof -
  from merge_episodes_map_of [OF assms, of title]
  obtain m where m: "merge_episodes es title = Inr m"
    and mo: "map_of m = map_of (hd es) ++ map_of (rev
        [(''title'', title),
         (''season'', PStr (season_or_1 (snd (collect_numbers es [] None)))),
         (''episode_count'',
            PInt (int (length (sorted_list_of_set (set (fst (collect_numbers es [] None))))))),
         (''episode_range'',
            PStr (format_episode_range
              (sorted_list_of_set (set (fst (collect_numbers es [] None)))))),
         (''episode_list'',
            PList (map PInt (sorted_list_of_set (set (fst (collect_numbers es [] None)))))),
         (''is_merged'', PBool True),
         (''action'', action),
         (''timestamp'', get (last es) ''timestamp'')])"
    by blast
  have "get m ''title'' = title"
    by (simp add: get_map_of mo)
  moreover have "get m ''season'' = PStr (season_of (hd es))"
    using assms(1) season_of_nonempty [of "hd es"]
    by (simp add: get_map_of mo collect_numbers_snd_None season_or_1_def)
  moreover have "get m ''episode_count'' =
       PInt (int (card (set (filter (\<lambda>n. n \<noteq> 0) (map episode_of es)))))"
    by (simp add: get_map_of mo collect_numbers_fst)
  moreover have "get m ''action'' = action"
    by (simp add: get_map_of mo)
  moreover have "get m ''timestamp'' = get (last es) ''timestamp''"
    by (simp add: get_map_of mo)
  moreover have "map_of m k = map_of (hd es) k" if "k \<notin> overwritten_keys" for k
    using that by (simp add: mo overwritten_keys_def map_add_def)
  ultimately show ?thesis
    using m by blast
qed

text \<open>
  Claim C4, as the code has it. For every list of buffered events that is not empty
  (the source field of the last event holding a string \<open>s\<close>), the action of the merged
  event is the fixed batch-library-update label whenever \<open>s\<close> contains \<open>EMBY\<close> in any
  case, whatever the action of the last event; otherwise it is the action of the last
  event when that is present, and the fixed merged-download label when it is absent.
\<close>

theorem merged_action_source_first:
  assumes "es \<noteq> []" and "get_or (last es) ''source'' (PStr '''') = PStr s"
  shows "\<exists>m. merge_episodes es title = Inr m \<and>
     get m ''action'' =
       (if contains ''EMBY'' (upper s) then PStr label_batch_library_update
        else if truthy (get (last es) ''action'') then get (last es) ''action''
        else PStr label_merged_download)"
proof -
  let ?a = "if contains ''EMBY'' (upper s) then PStr label_batch_library_update
        else if truthy (get (last es) ''action'') then get (last es) ''action''
        else PStr label_merged_download"
  have "merged_action (last es) = Inr ?a"
    using assms(2) by (rule merged_action_str)
  from merge_episodes_fields [OF assms(1) this, of title]
  show ?thesis by blast
qed

theorem merged_action_source_first_witness:
  "[[(''title'', PStr ''Show''), (''episode'', PStr ''E1''), (''source'', PStr ''ANIRSS'')],
    [(''title'', PStr ''Show''), (''episode'', PStr ''E2''), (''source'', PStr ''ANIRSS''),
     (''action'', PStr ''download'')]] \<noteq> [] \<and>
   (\<exists>m. merge_episodes
      [[(''title'', PStr ''Show''), (''episode'', PStr ''E1''), (''source'', PStr ''ANIRSS'')],
       [(''title'', PStr ''Show''), (''episode'', PStr ''E2''), (''source'', PStr ''ANIRSS''),
        (''action'', PStr ''download'')]] (PStr ''Show'') = Inr m \<and>
      get m ''action'' = PStr ''download'')"
proof -
  let ?es = "[[(''title'', PStr ''Show''), (''episode'', PStr ''E1''), (''source'', PStr ''ANIRSS'')],
    [(''title'', PStr ''Show''), (''episode'', PStr ''E2''), (''source'', PStr ''ANIRSS''),
     (''action'', PStr ''download'')]]"
  have ne: "?es \<noteq> []" by simp
  have src: "get_or (last ?es) ''source'' (PStr '''') = PStr ''ANIRSS''"
    by code_simp
  have v: "(if contains ''EMBY'' (upper ''ANIRSS'') then PStr label_batch_library_update
        else if truthy (get (last ?es) ''action'') then get (last ?es) ''action''
        else PStr label_merged_download) = PStr ''download''"
    by code_simp
  show ?thesis
    using merged_action_source_first [OF ne src, of "PStr ''Show''"] ne
    unfolding v by (intro conjI)
qed

text \<open>
  The claim as the specification words it fails on a library event: its action is
  present, and the merged event carries the batch-library-update label instead.
\<close>

theorem merged_action_counterexample:
  "merge_episodes
     [[(''title'', PStr ''Show''), (''episode'', PStr ''E1''), (''source'', PStr ''EMBY''),
       (''action'', PStr ''done'')]] (PStr ''Show'') =
   Inr [(''title'', PStr ''Show''), (''episode'', PStr ''E1''), (''source'', PStr ''EMBY''),
        (''action'', PStr label_batch_library_update), (''season'', PStr ''1''),
        (''episode_count'', PInt 1), (''episode_range'', PStr ''E01''),
        (''episode_list'', PList [PInt 1]), (''is_merged'', PBool True),
        (''timestamp'', PNone)] \<and>
   spec_merged_action
     [(''title'', PStr ''Show''), (''episode'', PStr ''E1''), (''source'', PStr ''EMBY''),
      (''action'', PStr ''done'')] = PStr ''done'' \<and>
   PStr label_batch_library_update \<noteq> PStr ''done''"
  by code_simp




text \<open>
  Claim C9. For every list of buffered events that is not empty, the merged event has
  under every key that is not one of the eight overwritten keys exactly what the first
  buffered event has under it (the same value, or no entry); in particular its image
  is the image of the first event.
\<close>

theorem merged_preserves_first:
  assumes "es \<noteq> []" and "source_is_str (last es)"
  shows "\<exists>m. merge_episodes es title = Inr m \<and>
     (\<forall>k. k \<notin> overwritten_keys \<longrightarrow> map_of m k = map_of (hd es) k) \<and>
     get m ''image'' = get (hd es) ''image''"
proof -
  obtain action where "merged_action (last es) = Inr action"
    using assms(2) merged_action_Inr_iff by blast
  from merge_episodes_fields [OF assms(1) this, of title]
  obtain m where m: "merge_episodes es title = Inr m"
    and k: "\<forall>k. k \<notin> overwritten_keys \<longrightarrow> map_of m k = map_of (hd es) k"
    by blast
  have "''image'' \<notin> overwritten_keys"
    by (simp add: overwritten_keys_def)
  with k have "get m ''image'' = get (hd es) ''image''"
    by (simp add: get_map_of)
  with m k show ?thesis by blast
qed

theorem merged_preserves_first_witness:
  "[[(''episode'', PStr ''E1''), (''source'', PStr ''ANIRSS''), (''image'', PStr ''/cache/1.png''),
     (''score'', PStr ''8.5'')],
    [(''episode'', PStr ''E2''), (''source'', PStr ''ANIRSS''), (''image'', PStr ''/cache/2.png'')]]
     \<noteq> [] \<and>
   ''score'' \<notin> overwritten_keys \<and>
   (\<exists>m. merge_episodes
      [[(''episode'', PStr ''E1''), (''source'', PStr ''ANIRSS''),
        (''image'', PStr ''/cache/1.png''), (''score'', PStr ''8.5'')],
       [(''episode'', PStr ''E2''), (''source'', PStr ''ANIRSS''),
        (''image'', PStr ''/cache/2.png'')]]
      (PStr ''Show'') = Inr m \<and>
      map_of m ''score'' = Some (PStr ''8.5'') \<and>
      get m ''image'' = PStr ''/cache/1.png'')"
proof -
  let ?es = "[[(''episode'', PStr ''E1''), (''source'', PStr ''ANIRSS''),
        (''image'', PStr ''/cache/1.png''), (''score'', PStr ''8.5'')],
       [(''episode'', PStr ''E2''), (''source'', PStr ''ANIRSS''),
        (''image'', PStr ''/cache/2.png'')]]"
  have ne: "?es \<noteq> []" by simp
  have src: "source_is_str (last ?es)" by code_simp
  have k: "''score'' \<notin> overwritten_keys" by (simp add: overwritten_keys_def)
  have v: "map_of (hd ?es) ''score'' = Some (PStr ''8.5'')" by code_simp
  have i: "get (hd ?es) ''image'' = PStr ''/cache/1.png''" by code_simp
  show ?thesis
    using merged_preserves_first [OF ne src, of "PStr ''Show''"] ne k
    unfolding i by (metis v)
qed



section \<open>Properties of the event normalizer\<close>

text \<open>
  Claim C2 fails on the code: \<open>pick\<close> raises. A feed record whose timestamp is the
  text \<open>N/A\<close> makes \<open>datetime.fromisoformat\<close> raise \<open>ValueError\<close>, which
  \<open>_pick_timestamp\<close> does not catch, whatever the library and the enrichment record.
\<close>

theorem pick_raises_on_malformed_timestamp:
  "pick env ANIRSS
     [(''id'', PInt 7), (''title'', PStr ''Show''), (''season'', PInt 1), (''episode'', PInt 3),
      (''timestamp'', PStr ''N/A'')]
     anime_data = Inl ValueError"
proof -
  let ?sd = "[(''id'', PInt 7), (''title'', PStr ''Show''), (''season'', PInt 1),
      (''episode'', PInt 3), (''timestamp'', PStr ''N/A'')]"
  have i: "pick_id ANIRSS ?sd = Inr (PInt 7)"
    by code_simp
  have t: "pick_timestamp env ANIRSS ?sd = Inl ValueError"
    by (simp add: pick_timestamp_def source_is_feed_or_library_def get_def get_or_def)
  show ?thesis
    unfolding pick_def i t by (simp split: prod.splits)
qed

text \<open>The same record with a well-formed timestamp is normalized.\<close>

lemma pick_returns_example:
  "pick \<lparr>json_loads = \<lambda>s. None,
         fromisoformat_strftime =
           (\<lambda>s. if s = ''2024-05-01T12:30:00'' then Some ''05-01 12:30:00'' else None),
         generate_emby_image_url = \<lambda>series_id tag. Inl ValueError\<rparr>
     ANIRSS
     [(''id'', PInt 7), (''title'', PStr ''Show''), (''season'', PInt 1), (''episode'', PInt 3),
      (''timestamp'', PStr ''2024-05-01T12:30:00'')]
     [] =
   Inr [(''id'', PInt 7), (''title'', PStr ''Show''), (''episode'', PStr (episode_label 1 3)),
        (''episode_title'', PNone), (''timestamp'', PStr ''05-01 12:30:00''),
        (''source'', PStr ''ANIRSS''), (''action'', PNone), (''score'', PNone),
        (''genres'', PNone), (''tmdb_id'', PNone), (''group_subscribers'', PDict []),
        (''private_subscribers'', PList []), (''image_queue'', PList []),
        (''media_type'', PStr ''Episode''), (''season'', PStr ''1''), (''subgroup'', PNone),
        (''progress'', PNone), (''premiere'', PNone), (''bgm_url'', PNone),
        (''tmdb_url'', PNone)]"
  by code_simp

text \<open>
  Claim C7, as the code has it. When the reference-site URL is synthesized (no raw
  value, no match among the external URLs of the library, a reference id known, the
  classification absent or a string), it is
  \<open>https://www.themoviedb.org/{tv|movie}/{id}\<close>, and the segment is \<open>movie\<close> when
  the classification equals \<open>movie\<close> in any case and also when the classification is
  absent (null or empty); it is \<open>tv\<close> for every other classification.
\<close>

theorem pick_tmdb_url_synthesized:
  assumes "raw_tmdb_url source_data = None"
    and "library_external_url ''themoviedb'' source source_data = Inr None"
    and "truthy (pick_tmdb_id source source_data anime_data)"
    and "pick_media_type source source_data = PNone \<or> is_str (pick_media_type source source_data)"
  shows "pick_tmdb_url source source_data anime_data =
     Inr (PStr (''https://www.themoviedb.org/'' @
       (if \<not> truthy (pick_media_type source source_data) \<or>
           lower (py_str (pick_media_type source source_data)) = ''movie''
        then ''movie'' else ''tv'') @
       ''/'' @ py_str (pick_tmdb_id source source_data anime_data)))"
proof (cases "pick_media_type source source_data")
  case PNone
  with assms(1-3) show ?thesis
    by (simp add: pick_tmdb_url_def type_path_def)
next
  case (PStr s)
  with assms(1-3) show ?thesis
    by (simp add: pick_tmdb_url_def type_path_def)
qed (use assms(4) in \<open>simp_all add: is_str_def\<close>)

theorem pick_tmdb_url_synthesized_witness:
  "raw_tmdb_url [(''type'', PStr ''Series''), (''tmdb_id'', PInt 1396)] = None \<and>
   library_external_url ''themoviedb'' EMBY
     [(''type'', PStr ''Series''), (''tmdb_id'', PInt 1396)] = Inr None \<and>
   truthy (pick_tmdb_id EMBY [(''type'', PStr ''Series''), (''tmdb_id'', PInt 1396)] []) \<and>
   is_str (pick_media_type EMBY [(''type'', PStr ''Series''), (''tmdb_id'', PInt 1396)]) \<and>
   pick_tmdb_url EMBY [(''type'', PStr ''Series''), (''tmdb_id'', PInt 1396)] [] =
     Inr (PStr ''https://www.themoviedb.org/tv/1396'')"
proof -
  let ?sd = "[(''type'', PStr ''Series''), (''tmdb_id'', PInt 1396)]"
  have a: "raw_tmdb_url ?sd = None" by code_simp
  have b: "library_external_url ''themoviedb'' EMBY ?sd = Inr None" by code_simp
  have c: "truthy (pick_tmdb_id EMBY ?sd [])" by code_simp
  have d: "is_str (pick_media_type EMBY ?sd)" by code_simp
  have v: "''https://www.themoviedb.org/'' @
       (if \<not> truthy (pick_media_type EMBY ?sd) \<or>
           lower (py_str (pick_media_type EMBY ?sd)) = ''movie''
        then ''movie'' else ''tv'') @
       ''/'' @ py_str (pick_tmdb_id EMBY ?sd []) = ''https://www.themoviedb.org/tv/1396''"
    by code_simp
  show ?thesis
    using pick_tmdb_url_synthesized [OF a b c disjI2, OF d] a b c d
    unfolding v by (intro conjI)
qed

text \<open>
  The claim as the specification words it fails on a feed record without a season: its
  classification is absent, and the synthesized URL has the segment \<open>movie\<close>.
\<close>

theorem pick_tmdb_url_counterexample:
  "pick_media_type ANIRSS [(''title'', PStr ''Show''), (''tmdb_id'', PInt 1396)] = PNone \<and>
   spec_type_path PNone = ''tv'' \<and>
   raw_tmdb_url [(''title'', PStr ''Show''), (''tmdb_id'', PInt 1396)] = None \<and>
   library_external_url ''themoviedb'' ANIRSS
     [(''title'', PStr ''Show''), (''tmdb_id'', PInt 1396)] = Inr None \<and>
   pick_tmdb_url ANIRSS [(''title'', PStr ''Show''), (''tmdb_id'', PInt 1396)] [] =
     Inr (PStr ''https://www.themoviedb.org/movie/1396'')"
  by code_simp



section \<open>Properties of the image cache selector\<close>

lemma first_completed_all_failed:
  assumes "\<forall>r \<in> set rs. snd r = None"
  shows "first_completed best rs = map_option snd best"
  using assms
proof (induction rs arbitrary: best)
  case Nil
  show ?case by simp
next
  case (Cons r rs)
  obtain t where "r = (t, None)"
    using Cons.prems by (cases r) auto
  with Cons show ?case by simp
qed

lemma download_all_failed:
  assumes "\<forall>(url, src) \<in> set url_dict. snd (get_request env url src) = None"
  shows "download_first_valid_image env url_dict = None"
proof -
  have "\<forall>r \<in> set (map (\<lambda>(url, src). get_request env url src) url_dict). snd r = None"
    using assms by auto
  then show ?thesis
    unfolding download_first_valid_image_def
    by (simp only: first_completed_all_failed option.map)
qed

lemma process_image_queue_all_failed:
  assumes "\<forall>(url, src) \<in> set (clean_image_queue env sel). snd (get_request env url src) = None"
  shows "process_image_queue env sel fs = (fs, None)"
  using download_all_failed [OF assms]
  by (simp add: process_image_queue_def Let_def)

text \<open>
  Claim C6. When the cache file of the selector exists and is expired, and every
  download candidate that survives the cleaning of the queue fails (none surviving
  included), \<open>select\<close> returns the path of the stale file, and the file system after
  the call is the one before it: no file is written, changed or removed.
\<close>

theorem select_returns_stale_cache:
  assumes "get_cache_path env sel = Some p"
    and "map_of fs p = Some f"
    and "is_cache_img_expired env f"
    and "\<forall>(url, src) \<in> set (clean_image_queue env sel). snd (get_request env url src) = None"
  shows "select env sel fs = (fs, Some p)"
proof -
  have s: "search_in_localstore env sel fs = (Some p, True)"
    using assms(1-3) by (simp add: search_in_localstore_def)
  have q: "process_image_queue env sel fs = (fs, None)"
    using assms(4) by (rule process_image_queue_all_failed)
  have "fallback_to_available_image env fs (Some p) = Some p"
    using assms(2) by (simp add: fallback_to_available_image_def exists_path_def)
  with s q show ?thesis
    by (simp add: select_def)
qed

theorem select_returns_stale_cache_witness:
  "get_cache_path
     \<lparr>cache_dir = Some ''/data/cache'', default_image = ''/res/default_img.png'',
      now = 1300000000000, emby_enabled = False,
      is_url = (\<lambda>u. take 7 u = ''http://''),
      emby_image_url = (\<lambda>series_id tag. Inl ValueError),
      get_request = (\<lambda>url src. (5, None)), save_outcome = Written\<rparr>
     \<lparr>sel_image_queue = [''http://img.example/a.png'', ''tag123''], sel_tmdb_id = Some ''1396'',
      sel_source_data = None, sel_emby_series_id = PNone\<rparr> = Some ''/data/cache/1396.png'' \<and>
   is_cache_img_expired
     \<lparr>cache_dir = Some ''/data/cache'', default_image = ''/res/default_img.png'',
      now = 1300000000000, emby_enabled = False,
      is_url = (\<lambda>u. take 7 u = ''http://''),
      emby_image_url = (\<lambda>series_id tag. Inl ValueError),
      get_request = (\<lambda>url src. (5, None)), save_outcome = Written\<rparr>
     \<lparr>content = ''old bytes'', mtime = 0\<rparr> \<and>
   clean_image_queue
     \<lparr>cache_dir = Some ''/data/cache'', default_image = ''/res/default_img.png'',
      now = 1300000000000, emby_enabled = False,
      is_url = (\<lambda>u. take 7 u = ''http://''),
      emby_image_url = (\<lambda>series_id tag. Inl ValueError),
      get_request = (\<lambda>url src. (5, None)), save_outcome = Written\<rparr>
     \<lparr>sel_image_queue = [''http://img.example/a.png'', ''tag123''], sel_tmdb_id = Some ''1396'',
      sel_source_data = None, sel_emby_series_id = PNone\<rparr> =
     [(''http://img.example/a.png'', EXTERNAL)] \<and>
   select
     \<lparr>cache_dir = Some ''/data/cache'', default_image = ''/res/default_img.png'',
      now = 1300000000000, emby_enabled = False,
      is_url = (\<lambda>u. take 7 u = ''http://''),
      emby_image_url = (\<lambda>series_id tag. Inl ValueError),
      get_request = (\<lambda>url src. (5, None)), save_outcome = Written\<rparr>
     \<lparr>sel_image_queue = [''http://img.example/a.png'', ''tag123''], sel_tmdb_id = Some ''1396'',
      sel_source_data = None, sel_emby_series_id = PNone\<rparr>
     [(''/data/cache/1396.png'', \<lparr>content = ''old bytes'', mtime = 0\<rparr>)] =
     ([(''/data/cache/1396.png'', \<lparr>content = ''old bytes'', mtime = 0\<rparr>)],
      Some ''/data/cache/1396.png'')"
proof -
  let ?env = "\<lparr>cache_dir = Some ''/data/cache'', default_image = ''/res/default_img.png'',
      now = 1300000000000, emby_enabled = False,
      is_url = (\<lambda>u. take 7 u = ''http://''),
      emby_image_url = (\<lambda>series_id tag. Inl ValueError),
      get_request = (\<lambda>url src. (5, None)), save_outcome = Written\<rparr>"
  let ?sel = "\<lparr>sel_image_queue = [''http://img.example/a.png'', ''tag123''],
      sel_tmdb_id = Some ''1396'', sel_source_data = None, sel_emby_series_id = PNone\<rparr>"
  let ?f = "\<lparr>content = ''old bytes'', mtime = 0\<rparr>"
  let ?fs = "[(''/data/cache/1396.png'', ?f)]"
  have a: "get_cache_path ?env ?sel = Some ''/data/cache/1396.png''" by code_simp
  have b: "map_of ?fs ''/data/cache/1396.png'' = Some ?f" by simp
  have c: "is_cache_img_expired ?env ?f" by code_simp
  have q: "clean_image_queue ?env ?sel = [(''http://img.example/a.png'', EXTERNAL)]"
    by code_simp
  have d: "\<forall>(url, src) \<in> set (clean_image_queue ?env ?sel). snd (get_request ?env url src) = None"
    by simp
  show ?thesis
    using select_returns_stale_cache [OF a b c d] a c q by (intro conjI)
qed

section \<open>Properties of the pipeline orchestrator\<close>

lemma committed_first_seen: "committed_first True t"
  by (induction t) simp_all

lemma committed_first_prefix:
  assumes "\<forall>a \<in> set pre. \<not> is_render a \<and> \<not> is_dispatch a"
    and "committed_first seen t"
  shows "committed_first seen (pre @ t)"
  using assms
proof (induction pre arbitrary: seen)
  case Nil
  then show ?case by simp
next
  case (Cons a pre)
  show ?case
  proof (cases "seen \<or> is_commit a")
    case True
    with Cons.prems(1) show ?thesis
      by (simp add: committed_first_seen)
  next
    case False
    with Cons show ?thesis by simp
  qed
qed

lemma push_groups_all:
  "list_all (\<lambda>a. is_render a \<or> is_dispatch a) (push_groups env base mp targets)"
proof (induction env base mp targets rule: push_groups.induct)
  case (1 env base mp)
  show ?case by simp
next
  case (2 env base mp group_id subscriber rest)
  show ?case
  proof (cases "render_at env (setitem mp ''at'' subscriber)")
    case None
    then show ?thesis by (simp add: is_render_def)
  next
    case (Some at_message)
    with 2 show ?thesis
      by (simp add: is_render_def is_dispatch_def)
  qed
qed

lemma push_groups_actions:
  "a \<in> set (push_groups env base mp targets) \<Longrightarrow> is_render a \<or> is_dispatch a"
  using push_groups_all [of env base mp targets] by (simp add: list_all_iff)

lemma push_to_group_actions:
  "a \<in> set (push_to_group env mp targets) \<Longrightarrow> is_render a \<or> is_dispatch a"
  by (auto simp: push_to_group_def is_render_def split: option.splits if_splits
      dest: push_groups_actions)

lemma do_push_actions:
  "a \<in> set (fst (do_push env pt gt mp merged)) \<Longrightarrow> is_render a \<or> is_dispatch a"
  by (auto simp: do_push_def is_render_def is_dispatch_def split: option.splits if_splits
      dest: push_to_group_actions)

lemma delayed_push_actions:
  "a \<in> set (fst (delayed_push env pt gt k buf)) \<Longrightarrow> is_render a \<or> is_dispatch a"
  by (auto simp: delayed_push_def split: option.splits if_splits sum.splits
      dest: do_push_actions)

lemma route_stage_actions:
  assumes "a \<in> set (fst (route_stage env pt gt mp buf))"
  shows "is_render a \<or> is_dispatch a \<or> (\<exists>k. a = Buffer_add k)"
proof -
  obtain flushed buf'' where d: "delayed_push env pt gt (buffer_key (get mp ''title'') mp)
      (add_episode buf (get mp ''title'') mp) = (flushed, buf'')"
    by (cases "delayed_push env pt gt (buffer_key (get mp ''title'') mp)
      (add_episode buf (get mp ''title'') mp)")
  have f: "b \<in> set flushed \<Longrightarrow> is_render b \<or> is_dispatch b" for b
    using delayed_push_actions [of b env pt gt "buffer_key (get mp ''title'') mp"
        "add_episode buf (get mp ''title'') mp"] d by simp
  show ?thesis
    using assms f
    by (auto simp: route_stage_def Let_def d split: if_splits pyval.splits
        dest: do_push_actions)
qed

lemma route_stage_no_upsert:
  "a \<in> set (fst (route_stage env pt gt mp buf)) \<Longrightarrow> a \<noteq> Upsert_sent i ok"
  by (auto dest!: route_stage_actions simp: is_render_def is_dispatch_def)

lemma commit_stage_committed_first:
  "committed_first seen (fst (commit_stage env i pt gt mp buf))"
  by (simp add: commit_stage_def is_render_def is_dispatch_def is_commit_def
      committed_first_seen split: prod.splits)

lemma commit_stage_upsert:
  assumes "Upsert_sent j ok \<in> set (fst (commit_stage env i pt gt mp buf))"
  shows "j = i \<and> ok = db_upsert_sent env i"
proof -
  obtain routed buf' where r: "route_stage env pt gt mp buf = (routed, buf')"
    by (cases "route_stage env pt gt mp buf")
  have "Upsert_sent j ok \<notin> set routed"
    using route_stage_no_upsert [of "Upsert_sent j ok" env pt gt mp buf j ok] r by auto
  with assms r show ?thesis
    by (auto simp: commit_stage_def split: if_splits)
qed

lemma commit_stage_failed:
  assumes "\<not> db_upsert_sent env i"
  shows "fst (commit_stage env i pt gt mp buf) = [Upsert_sent i False]"
  using assms by (simp add: commit_stage_def)

text \<open>
  The trace of a run is a prefix of queries and the image selection, followed by
  nothing or by the commit stage for the id of the fetched record.
\<close>

lemma anime_stage_actions:
  "a \<in> set (fst (anime_stage env tmdb)) \<Longrightarrow> \<exists>n. a = Select_anime n"
  by (auto simp: anime_stage_def split: option.splits if_splits sum.splits)

lemma execute_trace:
  "\<exists>pre post. fst (execute env source st) = pre @ post \<and>
     (\<forall>a \<in> set pre. a = Select_unsent \<or> (\<exists>n. a = Select_anime n) \<or> a = Select_image) \<and>
     (post = [] \<or>
      (\<exists>row pt gt mp buf. db_select_unsent env = Inr (Some row) \<and>
         post = fst (commit_stage env (get row ''id'') pt gt mp buf)))"
  (is "\<exists>pre post. ?shape pre post")
proof -
  have stop: "?shape [Select_unsent] []" if "fst (execute env source st) = [Select_unsent]"
    using that by simp
  show ?thesis
  proof (cases "db_select_unsent env")
    case (Inl e)
    then have "fst (execute env source st) = [Select_unsent]"
      by (simp add: execute_def)
    then have "?shape [Select_unsent] []" by (rule stop)
    then show ?thesis by blast
  next
    case (Inr r)
    show ?thesis
    proof (cases r)
      case None
      with Inr have "fst (execute env source st) = [Select_unsent]"
        by (simp add: execute_def)
      then have "?shape [Select_unsent] []" by (rule stop)
      then show ?thesis by blast
    next
      case (Some row)
      note row = Inr [unfolded Some]
      show ?thesis
      proof (cases "truthy (get row ''id'')")
        case False
        with row have "fst (execute env source st) = [Select_unsent]"
          by (simp add: execute_def)
        then have "?shape [Select_unsent] []" by (rule stop)
        then show ?thesis by blast
      next
        case True
        obtain aa ad where an: "anime_stage env (get_tmdb_id row) = (aa, ad)"
          by (cases "anime_stage env (get_tmdb_id row)")
        have aa: "\<forall>a \<in> set aa. \<exists>n. a = Select_anime n"
          using anime_stage_actions [of _ env "get_tmdb_id row"] an by auto
        show ?thesis
        proof (cases "pick (picker env) source row ad")
          case (Inl e)
          with row True an
          have "fst (execute env source st) = (Select_unsent # aa) @ []"
            by (simp add: execute_def Let_def)
          with aa have "?shape (Select_unsent # aa) []" by auto
          then show ?thesis by blast
        next
          case (Inr mp)
          let ?sel = "\<lparr>sel_image_queue = queue_of (get_or mp ''image_queue'' (PList [])),
                        sel_tmdb_id = Some (case get_tmdb_id row of None \<Rightarrow> ''None''
                                            | Some n \<Rightarrow> dec_int n),
                        sel_source_data = Some row,
                        sel_emby_series_id = get row ''series_id''\<rparr>"
          obtain c ip where se: "select (imager env) ?sel (cache st) = (c, ip)"
            by (cases "select (imager env) ?sel (cache st)")
          let ?mp = "setitem mp ''image'' (path_value ip)"
          let ?pre = "Select_unsent # aa @ [Select_image]"
          have quiet: "\<forall>a \<in> set ?pre.
              a = Select_unsent \<or> (\<exists>n. a = Select_anime n) \<or> a = Select_image"
            using aa by auto
          show ?thesis
          proof (cases "pushtarget_conflate env ?mp")
            case (Inl e)
            with row True an Inr se
            have "fst (execute env source st) = ?pre @ []"
              by (simp add: execute_def Let_def)
            with quiet have "?shape ?pre []" by blast
            then show ?thesis by blast
          next
            case (Inr targets)
            obtain pt gt where t: "targets = (pt, gt)" by (cases targets)
            let ?post = "fst (commit_stage env (get row ''id'') pt gt ?mp (buffer st))"
            from row True an \<open>pick (picker env) source row ad = Inr mp\<close> se Inr t
            have "fst (execute env source st) = ?pre @ ?post"
              by (simp add: execute_def Let_def split: prod.splits)
            moreover have "\<exists>row' pt' gt' mp' buf'. db_select_unsent env = Inr (Some row') \<and>
                ?post = fst (commit_stage env (get row' ''id'') pt' gt' mp' buf')"
              using row by blast
            ultimately have "?shape ?pre ?post"
              using quiet by blast
            then show ?thesis by blast
          qed
        qed
      qed
    qed
  qed
qed

text \<open>
  Claim C1. In the trace of every run, every render and every dispatch comes after a
  successful write of the sent flag; a write of the sent flag is for the id of the
  fetched record; and when the write fails, the trace has no render and no dispatch,
  to private or to group targets.
\<close>

theorem commit_before_dispatch:
  "committed_first False (fst (execute env source st)) \<and>
   (\<forall>i ok. Upsert_sent i ok \<in> set (fst (execute env source st)) \<longrightarrow>
      (\<exists>row. db_select_unsent env = Inr (Some row) \<and> i = get row ''id'')) \<and>
   ((\<exists>a \<in> set (fst (execute env source st)). is_failed_commit a) \<longrightarrow>
      (\<forall>a \<in> set (fst (execute env source st)). \<not> is_render a \<and> \<not> is_dispatch a))"
proof -
  from execute_trace [of env source st]
  obtain pre post where tr: "fst (execute env source st) = pre @ post"
    and pre: "\<forall>a \<in> set pre. a = Select_unsent \<or> (\<exists>n. a = Select_anime n) \<or> a = Select_image"
    and post: "post = [] \<or>
      (\<exists>row pt gt mp buf. db_select_unsent env = Inr (Some row) \<and>
         post = fst (commit_stage env (get row ''id'') pt gt mp buf))"
    by blast
  have quiet: "\<forall>a \<in> set pre. \<not> is_render a \<and> \<not> is_dispatch a"
    using pre by (auto simp: is_render_def is_dispatch_def)
  have "committed_first False post"
    using post by (auto simp: commit_stage_committed_first)
  with quiet have first: "committed_first False (pre @ post)"
    by (rule committed_first_prefix)
  have ids: "\<exists>row. db_select_unsent env = Inr (Some row) \<and> i = get row ''id''"
    if "Upsert_sent i ok \<in> set (pre @ post)" for i ok
  proof -
    from that pre have "Upsert_sent i ok \<in> set post" by auto
    with post show ?thesis
      by (auto dest: commit_stage_upsert)
  qed
  have failed: "\<forall>a \<in> set (pre @ post). \<not> is_render a \<and> \<not> is_dispatch a"
    if "\<exists>a \<in> set (pre @ post). is_failed_commit a"
  proof -
    from that pre obtain a where a: "a \<in> set post" "is_failed_commit a"
      by (auto simp: is_failed_commit_def)
    from a(2) obtain i where ai: "a = Upsert_sent i False"
      by (cases a) (simp_all add: is_failed_commit_def)
    from a(1) post obtain row pt gt mp buf
      where p: "post = fst (commit_stage env (get row ''id'') pt gt mp buf)"
      by auto
    from a(1) ai p have "\<not> db_upsert_sent env (get row ''id'')"
      by (auto dest: commit_stage_upsert)
    then have "post = [Upsert_sent (get row ''id'') False]"
      unfolding p by (rule commit_stage_failed)
    with quiet show ?thesis
      by (auto simp: is_render_def is_dispatch_def)
  qed
  from first ids failed show ?thesis
    unfolding tr by blast
qed

theorem commit_before_dispatch_witness:
  "fst (execute (example_env True) EMBY example_state) =
     [Select_unsent, Select_anime 5, Select_image, Upsert_sent (PInt 7) True, Render_all,
      Send_private ''text'' [''u1''], Render_base, Render_at ''g1'',
      Send_group ''base@u2'' ''g1''] \<and>
   committed_first False
     [Select_unsent, Select_anime 5, Select_image, Upsert_sent (PInt 7) True, Render_all,
      Send_private ''text'' [''u1''], Render_base, Render_at ''g1'',
      Send_group ''base@u2'' ''g1''] \<and>
   fst (execute (example_env False) EMBY example_state) =
     [Select_unsent, Select_anime 5, Select_image, Upsert_sent (PInt 7) False] \<and>
   is_failed_commit (Upsert_sent (PInt 7) False) \<and>
   list_all (\<lambda>a. \<not> is_render a \<and> \<not> is_dispatch a)
     [Select_unsent, Select_anime 5, Select_image, Upsert_sent (PInt 7) False]"
proof -
  have ok: "fst (execute (example_env True) EMBY example_state) =
     [Select_unsent, Select_anime 5, Select_image, Upsert_sent (PInt 7) True, Render_all,
      Send_private ''text'' [''u1''], Render_base, Render_at ''g1'',
      Send_group ''base@u2'' ''g1'']"
    by code_simp
  have failed: "fst (execute (example_env False) EMBY example_state) =
     [Select_unsent, Select_anime 5, Select_image, Upsert_sent (PInt 7) False]"
    by code_simp
  have f: "is_failed_commit (Upsert_sent (PInt 7) False)"
    by (simp add: is_failed_commit_def)
  then have "\<exists>a \<in> set [Select_unsent, Select_anime 5, Select_image, Upsert_sent (PInt 7) False].
      is_failed_commit a"
    by simp
  with commit_before_dispatch [of "example_env False" EMBY example_state]
  have "\<forall>a \<in> set [Select_unsent, Select_anime 5, Select_image, Upsert_sent (PInt 7) False].
      \<not> is_render a \<and> \<not> is_dispatch a"
    unfolding failed by blast
  then have quiet: "list_all (\<lambda>a. \<not> is_render a \<and> \<not> is_dispatch a)
     [Select_unsent, Select_anime 5, Select_image, Upsert_sent (PInt 7) False]"
    by (simp only: list_all_iff)
  from commit_before_dispatch [of "example_env True" EMBY example_state]
  have "committed_first False
     [Select_unsent, Select_anime 5, Select_image, Upsert_sent (PInt 7) True, Render_all,
      Send_private ''text'' [''u1''], Render_base, Render_at ''g1'',
      Send_group ''base@u2'' ''g1'']"
    unfolding ok by (rule conjunct1)
  with ok failed f quiet show ?thesis
    by (intro conjI)
qed

section \<open>The events of one bucket\<close>

lemma takeWhile_digit_suffix:
  assumes "list_all is_digit s"
  shows "takeWhile is_digit (rev (t @ ''_S'' @ s)) = rev s"
proof -
  have "\<not> is_digit CHR ''S''" by (simp add: is_digit_def)
  moreover have "\<forall>c \<in> set (rev s). is_digit c"
    using assms by (simp add: list_all_iff)
  ultimately have "takeWhile is_digit (rev s @ CHR ''S'' # CHR ''_'' # rev t) = rev s"
    by (subst takeWhile_append2) simp_all
  then show ?thesis by simp
qed

lemma key_season_unique:
  assumes "list_all is_digit s1" "list_all is_digit s2"
    and "t1 @ ''_S'' @ s1 = t2 @ ''_S'' @ s2"
  shows "s1 = s2"
proof -
  have "rev s1 = takeWhile is_digit (rev (t1 @ ''_S'' @ s1))"
    using assms(1) by (simp only: takeWhile_digit_suffix)
  also have "\<dots> = takeWhile is_digit (rev (t2 @ ''_S'' @ s2))"
    by (simp only: assms(3))
  also have "\<dots> = rev s2"
    using assms(2) by (simp only: takeWhile_digit_suffix)
  finally show ?thesis by simp
qed

lemma first_digit_run_digits: "first_digit_run s = Some m \<Longrightarrow> list_all is_digit m"
  by (auto simp: first_digit_run_def list_all_iff split: list.splits dest: set_takeWhileD)

lemma extract_season_number_digits: "list_all is_digit (extract_season_number v)"
  by (auto simp: extract_season_number_def is_digit_def dest: first_digit_run_digits
      split: option.splits)

lemma season_of_default: "extract_season_number (get_or e ''season'' (PStr ''1'')) = season_of e"
proof (cases "map_of e ''season''")
  case None
  have "extract_season_number (PStr ''1'') = ''1''" by code_simp
  moreover have "extract_season_number (PStr '''') = ''1''" by code_simp
  ultimately show ?thesis
    using None by (simp add: season_of_def get_or_def)
next
  case (Some v)
  then show ?thesis by (simp add: season_of_def get_or_def)
qed

lemma buffer_key_season: "buffer_key title e = py_str title @ ''_S'' @ season_of e"
  by (simp add: buffer_key_def season_of_default)

lemma bucket_uniform_same_season:
  assumes "bucket_uniform buf" and "(k, es) \<in> set buf" and "e \<in> set es" and "e' \<in> set es"
  shows "season_of e = season_of e'"
proof -
  from assms obtain t t' where "k = t @ ''_S'' @ season_of e" "k = t' @ ''_S'' @ season_of e'"
    unfolding bucket_uniform_def by blast
  then have "t @ ''_S'' @ season_of e = t' @ ''_S'' @ season_of e'" by simp
  moreover have "list_all is_digit (season_of e)" "list_all is_digit (season_of e')"
    by (simp_all add: season_of_def extract_season_number_digits)
  ultimately show ?thesis
    using key_season_unique by blast
qed

lemma bucket_uniform_empty: "bucket_uniform []"
  by (simp add: bucket_uniform_def)

lemma bucket_uniform_add_episode:
  assumes "bucket_uniform buf"
  shows "bucket_uniform (add_episode buf title e)"
proof (cases "map_of buf (buffer_key title e)")
  case None
  then have "add_episode buf title e = buf @ [(buffer_key title e, [e])]"
    by (simp add: add_episode_def)
  with assms show ?thesis
    by (auto simp: bucket_uniform_def buffer_key_season)
next
  case (Some es)
  then have a: "add_episode buf title e =
      map (\<lambda>(k', es). if k' = buffer_key title e then (k', es @ [e]) else (k', es)) buf"
    by (simp add: add_episode_def)
  show ?thesis
    unfolding a bucket_uniform_def
  proof (intro ballI, clarify)
    fix k es' x
    assume m: "(k, es') \<in> set (map (\<lambda>(k', es). if k' = buffer_key title e
        then (k', es @ [e]) else (k', es)) buf)" and x: "x \<in> set es'"
    from m obtain es0 where b: "(k, es0) \<in> set buf"
      and es': "es' = (if k = buffer_key title e then es0 @ [e] else es0)"
      by (auto split: if_splits)
    show "\<exists>t. k = t @ ''_S'' @ season_of x"
    proof (cases "x \<in> set es0")
      case True
      with assms b show ?thesis unfolding bucket_uniform_def by blast
    next
      case False
      with x es' have "k = buffer_key title e" "x = e" by (auto split: if_splits)
      then show ?thesis by (auto simp: buffer_key_season)
    qed
  qed
qed

lemma bucket_uniform_delayed_push:
  assumes "bucket_uniform buf"
  shows "bucket_uniform (snd (delayed_push env pt gt k buf))"
  using assms
  by (auto simp: delayed_push_def bucket_uniform_def split: option.splits sum.splits)

text \<open>The events of a bucket share their season number, that of the first event.\<close>

lemma bucket_events_same_season:
  assumes "bucket_uniform buf" and "(k, es) \<in> set buf"
  shows "\<forall>e \<in> set es. season_of e = season_of (hd es)"
proof
  fix e
  assume e: "e \<in> set es"
  then have "hd es \<in> set es" by (cases es) auto
  with assms e show "season_of e = season_of (hd es)"
    by (rule bucket_uniform_same_season)
qed

text \<open>
  On a label of the normalizer the first run of digits is the season, not the episode:
  the number read off \<open>season 2, episode 13\<close> is 2.
\<close>

lemma episode_of_normalizer_label:
  "episode_of [(''episode'', PStr (episode_label 2 13))] = 2"
  by code_simp

end
